theory Spec2Isabelle
  imports Main "HOL-Library.Word"
begin

unbundle bit_operations_syntax

section \<open>The LXC execution driver (execdriver/lxc/driver.go)\<close>

text \<open>
  A shallow embedding of the driver: the argument vector that \<open>Run\<close> assembles, the
  start-confirmation loop \<open>waitForStart\<close>, the exit watcher, \<open>kill\<close>,
  \<open>GetPidsForContainer\<close> and \<open>rootIsShared\<close>. Strings are byte lists, as Go's are.
  Every call that leaves the process (an external command, a file, the clock) takes its
  outcome from a record describing the host, so that the functions below are pure and
  every error return of the source is a branch.
\<close>

subsection \<open>The parts of Go's standard library the driver calls\<close>

text \<open>\<open>strings.HasPrefix\<close>, \<open>strings.Contains\<close>, and \<open>strings.Split\<close> with a
  one-byte separator: \<open>Split\<close> of the empty string is one empty field, and \<open>n\<close>
  separators always give \<open>n + 1\<close> fields.\<close>

definition HasPrefix :: "string \<Rightarrow> string \<Rightarrow> bool" where
  "HasPrefix s p = (take (length p) s = p)"

fun Contains :: "string \<Rightarrow> string \<Rightarrow> bool" where
  "Contains [] sub = (sub = [])"
| "Contains (c # cs) sub = (HasPrefix (c # cs) sub \<or> Contains cs sub)"

fun Split :: "string \<Rightarrow> char \<Rightarrow> string list" where
  "Split [] sep = [[]]"
| "Split (c # cs) sep =
     (if c = sep then [] # Split cs sep
      else (case Split cs sep of [] \<Rightarrow> [[c]] | w # ws \<Rightarrow> (c # w) # ws))"

text \<open>\<open>strings.Join\<close>.\<close>

fun JoinStrings :: "string list \<Rightarrow> string \<Rightarrow> string" where
  "JoinStrings [] sep = []"
| "JoinStrings [a] sep = a"
| "JoinStrings (a # b # r) sep = a @ sep @ JoinStrings (b # r) sep"

text \<open>\<open>path.Clean\<close> and \<open>path.Join\<close> (\<open>filepath.Join\<close> is the same function on
  Linux). \<open>Clean\<close> works on the slash-separated components: empty components and
  \<open>.\<close> vanish, \<open>..\<close> removes the component before it, is dropped at the root of a
  rooted path and is kept at the start of a relative one. \<open>Join\<close> skips leading empty
  elements, joins the rest with slashes and cleans the result.\<close>

definition cleanStep :: "bool \<Rightarrow> string list \<Rightarrow> string \<Rightarrow> string list" where
  "cleanStep rooted st c =
     (if c = ''..'' then
        (if st \<noteq> [] \<and> last st \<noteq> ''..'' then butlast st
         else if rooted then st
         else st @ [c])
      else st @ [c])"

definition Clean :: "string \<Rightarrow> string" where
  "Clean p =
     (if p = [] then ''.''
      else
        (let rooted = (hd p = CHR ''/'');
             comps = filter (\<lambda>c. c \<noteq> [] \<and> c \<noteq> ''.'') (Split p (CHR ''/''));
             out = JoinStrings (foldl (cleanStep rooted) [] comps) ''/''
         in if rooted then CHR ''/'' # out
            else if out = [] then ''.''
            else out))"

definition Join :: "string list \<Rightarrow> string" where
  "Join elem =
     (case dropWhile (\<lambda>e. e = []) elem of
        [] \<Rightarrow> []
      | e # es \<Rightarrow> Clean (JoinStrings (e # es) ''/''))"

text \<open>\<open>strconv.Itoa\<close>: the decimal digits, with a minus sign for a negative number.\<close>

definition digit :: "int \<Rightarrow> char" where
  "digit d = char_of (48 + d)"

function decimal :: "int \<Rightarrow> string" where
  "decimal n = (if n < 10 then [digit n] else decimal (n div 10) @ [digit (n mod 10)])"
  by pat_completeness auto
termination
  by (relation "measure nat") auto

declare decimal.simps [simp del]

definition Itoa :: "int \<Rightarrow> string" where
  "Itoa i = (if i < 0 then CHR ''-'' # decimal (- i) else decimal i)"

text \<open>\<open>strconv.Atoi\<close>, that is \<open>ParseInt(s, 10, 0)\<close> with the 64-bit \<open>int\<close> of the
  platforms the driver runs on: an optional sign, then \<open>ParseUint\<close> scanning the digits
  from the left (a byte that is no digit is a syntax error, a value beyond 64 bits a range
  error, whichever the scan meets first), then the signed range.\<close>

datatype num_error = ErrSyntax | ErrRange

definition isDigit :: "char \<Rightarrow> bool" where
  "isDigit c = (48 \<le> (of_char c :: int) \<and> (of_char c :: int) \<le> 57)"

definition maxUint64 :: int where
  "maxUint64 = 2 ^ 64 - 1"

fun scanDigits :: "int \<Rightarrow> string \<Rightarrow> num_error + int" where
  "scanDigits n [] = Inr n"
| "scanDigits n (c # cs) =
     (if \<not> isDigit c then Inl ErrSyntax
      else if n \<ge> maxUint64 div 10 + 1 then Inl ErrRange
      else (let n1 = n * 10 + (of_char c - 48)
            in if n1 > maxUint64 then Inl ErrRange else scanDigits n1 cs))"

definition ParseUint :: "string \<Rightarrow> num_error + int" where
  "ParseUint s = (if s = [] then Inl ErrSyntax else scanDigits 0 s)"

definition Atoi :: "string \<Rightarrow> num_error + int" where
  "Atoi s =
     (case s of
        [] \<Rightarrow> Inl ErrSyntax
      | c # cs \<Rightarrow>
          (let neg = (c = CHR ''-'');
               s' = (if c = CHR ''+'' \<or> c = CHR ''-'' then cs else s)
           in case ParseUint s' of
                Inl e \<Rightarrow> Inl e
              | Inr un \<Rightarrow>
                  if \<not> neg \<and> un \<ge> 2 ^ 63 then Inl ErrRange
                  else if neg \<and> un > 2 ^ 63 then Inl ErrRange
                  else Inr (if neg then - un else un)))"

subsection \<open>Errors\<close>

text \<open>
  The error values the driver returns or passes on. \<open>ExitError\<close> is
  \<open>*exec.ExitError\<close> with the wait status it wraps; \<open>NotExist\<close> is an error for
  which \<open>os.IsNotExist\<close> holds; \<open>SysError\<close> is any other error of the operating
  system or of a collaborator, with its message. \<open>Errorf\<close> is \<open>fmt.Errorf\<close>: the
  format and its arguments, kept unformatted.
\<close>

type_synonym WaitStatus = "32 word"

datatype error =
    ErrNotRunning
  | ExitError WaitStatus
  | NotExist string
  | SysError string
  | NumError string num_error
  | Errorf string "fmt_arg list"
and fmt_arg =
    ArgString string
  | ArgBytes string
  | ArgError error

definition IsNotExist :: "error option \<Rightarrow> bool" where
  "IsNotExist err = (case err of Some (NotExist p) \<Rightarrow> True | _ \<Rightarrow> False)"

definition isExitError :: "error \<Rightarrow> bool" where
  "isExitError err = (case err of ExitError ws \<Rightarrow> True | _ \<Rightarrow> False)"

subsection \<open>GetPidsForContainer\<close>

text \<open>
  What the function asks of the host: the two cgroup lookups (package \<open>cgroups\<close>),
  \<open>os.Stat\<close> and \<open>ioutil.ReadFile\<close>. The result carries the list of file-system
  calls made, in order, beside the returned pair.
\<close>

record cgroup_host =
  FindCgroupMountpoint :: "string \<Rightarrow> error + string"
  GetThisCgroupDir :: "string \<Rightarrow> error + string"
  Stat :: "string \<Rightarrow> error option"
  ReadFile :: "string \<Rightarrow> error + string"

datatype fs_call = CallStat string | CallReadFile string

record pids_result =
  pids :: "int list"
  pids_err :: "error option"
  fs_calls :: "fs_call list"

text \<open>The loop over the lines of the tasks file: an empty line is skipped, a line that
  \<open>Atoi\<close> rejects ends the loop with the pids read so far and the error.\<close>

fun parsePids :: "string list \<Rightarrow> int list \<Rightarrow> int list \<times> error option" where
  "parsePids [] acc = (acc, None)"
| "parsePids (p # ps) acc =
     (if length p = 0 then parsePids ps acc
      else (case Atoi p of
              Inl e \<Rightarrow>
                (acc, Some (Errorf ''Invalid pid '%s': %s'' [ArgString p, ArgError (NumError p e)]))
            | Inr pid \<Rightarrow> parsePids ps (acc @ [pid])))"

definition GetPidsForContainer :: "cgroup_host \<Rightarrow> string \<Rightarrow> pids_result" where
  "GetPidsForContainer h id' =
     (let subsystem = ''memory'' in
      case FindCgroupMountpoint h subsystem of
        Inl err \<Rightarrow> \<lparr>pids = [], pids_err = Some err, fs_calls = []\<rparr>
      | Inr cgroupRoot \<Rightarrow>
      (case GetThisCgroupDir h subsystem of
        Inl err \<Rightarrow> \<lparr>pids = [], pids_err = Some err, fs_calls = []\<rparr>
      | Inr cgroupDir \<Rightarrow>
        (let filename = Join [cgroupRoot, cgroupDir, id', ''tasks''];
             filename' = (if IsNotExist (Stat h filename)
                          then Join [cgroupRoot, cgroupDir, ''lxc'', id', ''tasks'']
                          else filename);
             calls = [CallStat filename, CallReadFile filename']
         in case ReadFile h filename' of
              Inl err \<Rightarrow> \<lparr>pids = [], pids_err = Some err, fs_calls = calls\<rparr>
            | Inr output \<Rightarrow>
                (case parsePids (Split output (CHR 0x0A)) [] of
                   (ps, err) \<Rightarrow> \<lparr>pids = ps, pids_err = err, fs_calls = calls\<rparr>))))"

subsection \<open>rootIsShared\<close>

text \<open>
  The argument is the outcome of reading \<open>/proc/self/mountinfo\<close>. Indexing a slice
  beyond its length panics in Go, so the result is either the boolean or the panic.
\<close>

datatype 'a outcome = Value 'a | PanicIndexOutOfRange

definition index :: "'a list \<Rightarrow> nat \<Rightarrow> 'a outcome" where
  "index xs i = (if i < length xs then Value (xs ! i) else PanicIndexOutOfRange)"

fun mountinfoLines :: "string list \<Rightarrow> bool outcome" where
  "mountinfoLines [] = Value True"
| "mountinfoLines (line # rest) =
     (let cols = Split line (CHR '' '') in
      if length cols \<ge> 6 \<and> index cols 4 = Value ''/'' then
        (case index cols 6 of
           Value col \<Rightarrow> Value (HasPrefix col ''shared'')
         | PanicIndexOutOfRange \<Rightarrow> PanicIndexOutOfRange)
      else mountinfoLines rest)"

definition rootIsShared :: "error + string \<Rightarrow> bool outcome" where
  "rootIsShared mountinfo =
     (case mountinfo of
        Inr data \<Rightarrow> mountinfoLines (Split data (CHR 0x0A))
      | Inl err \<Rightarrow> Value True)"

subsection \<open>The command line of lxc-start\<close>

text \<open>
  The fields of \<open>execdriver.Command\<close> and \<open>execdriver.Network\<close> that the driver
  reads or writes (\<open>Path\<close>, \<open>Args\<close> and \<open>ProcessState\<close> are those of the
  embedded \<open>exec.Cmd\<close>), and the driver itself.
\<close>

record Network =
  Gateway :: string
  IPAddress :: string
  IPPrefixLen :: int
  Mtu :: int

record Command =
  ID :: string
  Privileged :: bool
  User :: string
  InitPath :: string
  Entrypoint :: string
  Arguments :: "string list"
  WorkingDir :: string
  Network :: "Network option"
  Path :: string
  Args :: "string list"
  ProcessState :: "WaitStatus option"

record driver =
  root :: string
  apparmor :: bool
  sharedRoot :: bool

definition DriverName :: string where
  "DriverName = ''lxc''"

text \<open>Lines 87 to 122 of \<open>Run\<close>: \<open>params\<close> is built by appending, and its first
  element is overwritten for a privileged container under apparmor.
  \<open>fmt.Sprintf("%s/%d", ip, n)\<close> is the address, a slash and the decimal number.\<close>

definition lxcStartParams :: "driver \<Rightarrow> Command \<Rightarrow> string \<Rightarrow> string list" where
  "lxcStartParams d c configPath =
     (let params = [''lxc-start'', ''-n'', ID c, ''-f'', configPath, ''--'', InitPath c,
                    ''-driver'', DriverName];
          params = (case Network c of
                      None \<Rightarrow> params
                    | Some n \<Rightarrow>
                        params @ [''-g'', Gateway n,
                                  ''-i'', IPAddress n @ ''/'' @ Itoa (IPPrefixLen n),
                                  ''-mtu'', Itoa (Mtu n)]);
          params = (if User c \<noteq> [] then params @ [''-u'', User c] else params);
          params = (if Privileged c then
                      (if apparmor d
                       then params[0 := Join [root d, ''lxc-start-unconfined'']]
                       else params) @ [''-privileged'']
                    else params);
          params = (if WorkingDir c \<noteq> [] then params @ [''-w'', WorkingDir c] else params);
          params = params @ [''--'', Entrypoint c];
          params = params @ Arguments c
      in params)"

text \<open>
  Modelled from the spec: \<open>utils.ShellQuoteArguments\<close>, whose package is not among
  the sources. The spec says that every launch argument is individually shell-escaped
  before concatenation, so that spaces and shell metacharacters survive: each argument is
  put in single quotes, a single quote inside it is written as the four bytes
  quote, backslash, quote, quote, and the escaped arguments are joined by one space.
\<close>

definition shellEscape :: "string \<Rightarrow> string" where
  "shellEscape w =
     concat (map (\<lambda>b. if b = CHR 0x27 then [CHR 0x27, CHR 0x5C, CHR 0x27, CHR 0x27] else [b]) w)"

definition shellQuote :: "string \<Rightarrow> string" where
  "shellQuote w = [CHR 0x27] @ shellEscape w @ [CHR 0x27]"

definition ShellQuoteArguments :: "string list \<Rightarrow> string" where
  "ShellQuoteArguments args = JoinStrings (map shellQuote args) '' ''"

text \<open>Lines 124 to 138: under a shared root the vector becomes the unshare wrapper.\<close>

definition wrapSharedRoot :: "driver \<Rightarrow> string list \<Rightarrow> string list" where
  "wrapSharedRoot d params =
     (if sharedRoot d then
        (let shellString = ''mount --make-rslave /; exec '' @ ShellQuoteArguments params
         in [''unshare'', ''-m'', ''--'', ''/bin/sh'', ''-c'', shellString])
      else params)"

subsection \<open>How /bin/sh reads a command string\<close>

text \<open>
  Token recognition of the POSIX shell, for the part of the language the wrapper's
  string is written in. Blanks separate words; a semicolon or a newline ends a command;
  inside single quotes every byte stands for itself up to the closing quote; a backslash
  outside quotes makes the next byte stand for itself; \<open>#\<close> at the start of a word
  opens a comment that runs to the end of the line. Outside quotes only letters, digits
  and the bytes \<open>- _ / . , : + @ %\<close> are taken as ordinary; any other byte there
  (expansions, redirections, globs, assignments) is not read by this model, which then
  gives \<open>None\<close>, as it does for a quote left open or a backslash at the very end.
\<close>

datatype sh_token = Word string | Semi

datatype sh_state = Blank | InWord string | InQuote string | Escaped string | Comment

definition shBlank :: "char \<Rightarrow> bool" where
  "shBlank b = (b = CHR '' '' \<or> b = CHR 0x09)"

definition shEnd :: "char \<Rightarrow> bool" where
  "shEnd b = (b = CHR '';'' \<or> b = CHR 0x0A)"

definition shPlain :: "char \<Rightarrow> bool" where
  "shPlain b =
     (let n = (of_char b :: int) in
      (48 \<le> n \<and> n \<le> 57) \<or> (65 \<le> n \<and> n \<le> 90) \<or> (97 \<le> n \<and> n \<le> 122) \<or>
      b \<in> set ''-_/.,:+@%'')"

definition emit :: "sh_token list \<Rightarrow> sh_token list option \<Rightarrow> sh_token list option" where
  "emit ts r = map_option (\<lambda>rest. ts @ rest) r"

fun shLex :: "sh_state \<Rightarrow> string \<Rightarrow> sh_token list option" where
  "shLex Blank [] = Some []"
| "shLex (InWord w) [] = Some [Word w]"
| "shLex (InQuote w) [] = None"
| "shLex (Escaped w) [] = None"
| "shLex Comment [] = Some []"
| "shLex Blank (b # bs) =
     (if shBlank b then shLex Blank bs
      else if shEnd b then emit [Semi] (shLex Blank bs)
      else if b = CHR ''#'' then shLex Comment bs
      else if b = CHR 0x27 then shLex (InQuote []) bs
      else if b = CHR 0x5C then shLex (Escaped []) bs
      else if shPlain b then shLex (InWord [b]) bs
      else None)"
| "shLex (InWord w) (b # bs) =
     (if shBlank b then emit [Word w] (shLex Blank bs)
      else if shEnd b then emit [Word w, Semi] (shLex Blank bs)
      else if b = CHR 0x27 then shLex (InQuote w) bs
      else if b = CHR 0x5C then shLex (Escaped w) bs
      else if shPlain b \<or> b = CHR ''#'' then shLex (InWord (w @ [b])) bs
      else None)"
| "shLex (InQuote w) (b # bs) =
     (if b = CHR 0x27 then shLex (InWord w) bs else shLex (InQuote (w @ [b])) bs)"
| "shLex (Escaped w) (b # bs) =
     (if b = CHR 0x0A then None else shLex (InWord (w @ [b])) bs)"
| "shLex Comment (b # bs) =
     (if b = CHR 0x0A then emit [Semi] (shLex Blank bs) else shLex Comment bs)"

text \<open>The commands of a token list: the words between the separators.\<close>

fun shGroup :: "sh_token list \<Rightarrow> string list \<Rightarrow> string list list" where
  "shGroup [] cur = [cur]"
| "shGroup (Word w # ts) cur = shGroup ts (cur @ [w])"
| "shGroup (Semi # ts) cur = cur # shGroup ts []"

definition shCommands :: "string \<Rightarrow> string list list option" where
  "shCommands s = map_option (\<lambda>ts. shGroup ts []) (shLex Blank s)"

subsection \<open>Process exit\<close>

text \<open>
  \<open>syscall.WaitStatus\<close> on Linux: the low seven bits are zero for a process that
  exited, and then bits 8 to 15 are its exit code; \<open>ExitStatus\<close> is \<open>-1\<close> for a
  process that did not exit (one killed by a signal).
\<close>

definition Exited :: "WaitStatus \<Rightarrow> bool" where
  "Exited w = (w AND 0x7F = 0)"

definition ExitStatus :: "WaitStatus \<Rightarrow> int" where
  "ExitStatus w = (if \<not> Exited w then - 1 else uint (drop_bit 8 w AND 0xFF))"

definition getExitCode :: "Command \<Rightarrow> int" where
  "getExitCode c = (case ProcessState c of None \<Rightarrow> - 1 | Some ws \<Rightarrow> ExitStatus ws)"

text \<open>
  \<open>exec.Cmd.Wait\<close>: either waiting itself fails and \<open>ProcessState\<close> stays
  \<open>nil\<close>, or the process is reaped; then the error is an \<open>ExitError\<close> unless the
  process exited with code 0, in which case it is the error of copying the streams, if
  any. The result is the new \<open>ProcessState\<close> and the error.
\<close>

datatype wait_outcome = WaitFailed error | Reaped WaitStatus "error option"

definition cmdWait :: "wait_outcome \<Rightarrow> WaitStatus option \<times> error option" where
  "cmdWait w =
     (case w of
        WaitFailed e \<Rightarrow> (None, Some e)
      | Reaped ws copyError \<Rightarrow>
          (Some ws, if ExitStatus ws \<noteq> 0 then Some (ExitError ws) else copyError))"

text \<open>The goroutine of \<open>Run\<close> that waits for the process, on the two variables it
  shares with \<open>Run\<close>: \<open>waitErr\<close>, and \<open>waitLock\<close> as the number of times it has
  been closed. Its argument is what \<open>c.Wait()\<close> returned.\<close>

record watcher =
  waitErr :: "error option"
  waitLockCloses :: nat

definition exitWatcher :: "error option \<Rightarrow> watcher \<Rightarrow> watcher" where
  "exitWatcher err s =
     (let s = (case err of
                 Some e \<Rightarrow> if \<not> isExitError e then s\<lparr>waitErr := Some e\<rparr> else s
               | None \<Rightarrow> s)
      in s\<lparr>waitLockCloses := waitLockCloses s + 1\<rparr>)"

subsection \<open>waitForStart\<close>

text \<open>
  Time is counted in nanoseconds since \<open>waitForStart\<close> was entered. The host gives,
  for the \<open>k\<close>-th call of \<open>getInfo\<close>, how long \<open>lxc-info\<close> ran, its combined
  output and its error, and by how much each \<open>time.Sleep\<close> overslept; durations below
  zero count as zero. \<open>closedAt\<close> is the time at which the exit watcher closes
  \<open>waitLock\<close> (never, if \<open>None\<close>), and \<open>stateThen\<close> is \<open>c.ProcessState\<close> as the
  watcher's \<open>Wait\<close> has left it by then.
\<close>

definition Millisecond :: int where
  "Millisecond = 1000000"

definition Second :: int where
  "Second = 1000 * Millisecond"

record status_host =
  getInfo :: "nat \<Rightarrow> int \<times> string \<times> error option"
  oversleep :: "nat \<Rightarrow> int"
  closedAt :: "int option"
  stateThen :: "WaitStatus option"

definition later :: "int \<Rightarrow> int \<Rightarrow> int" where
  "later t d = t + max 0 d"

text \<open>What the loop has done: the status queries by their number, the sleeps, and the
  reads of \<open>c.ProcessState\<close> in the \<open>waitLock\<close> case.\<close>

datatype event = EvGetInfo nat | EvSleep | EvProcessStateExited

text \<open>A statement either returns from the function or falls through to the next one;
  \<open>thenStmt\<close> is one statement after another.\<close>

datatype 'a flow = Returned 'a | FallThrough

type_synonym stmt = "error option flow \<times> event list"

definition returnStmt :: "error option \<Rightarrow> stmt" where
  "returnStmt r = (Returned r, [])"

definition thenStmt :: "stmt \<Rightarrow> stmt \<Rightarrow> stmt" where
  "thenStmt a b =
     (case a of
        (Returned r, ev) \<Rightarrow> (Returned r, ev)
      | (FallThrough, ev) \<Rightarrow> (fst b, ev @ snd b))"

definition ifExitedReturn :: "WaitStatus option \<Rightarrow> stmt" where
  "ifExitedReturn ps =
     ((case ps of
         Some ws \<Rightarrow> if Exited ws then Returned None else FallThrough
       | None \<Rightarrow> FallThrough),
      [EvProcessStateExited])"

text \<open>The \<open>select\<close>: the \<open>waitLock\<close> case when the channel is closed (lines 248 to
  252, the \<open>return\<close> and the \<open>if\<close> after it), the empty \<open>default\<close> otherwise.\<close>

definition selectWaitLock :: "status_host \<Rightarrow> int \<Rightarrow> stmt" where
  "selectWaitLock h t =
     (case closedAt h of
        Some f \<Rightarrow>
          if f \<le> t then thenStmt (returnStmt None) (ifExitedReturn (stateThen h))
          else (FallThrough, [])
      | None \<Rightarrow> (FallThrough, []))"

record wfs_result =
  wfs_err :: "error option"
  wfs_elapsed :: int
  wfs_events :: "event list"

datatype step = Done wfs_result | Again int nat "event list"

text \<open>Lines 263 to 266, after a status query that gave \<open>output\<close>.\<close>

definition checkRunning :: "status_host \<Rightarrow> string \<Rightarrow> int \<Rightarrow> nat \<Rightarrow> event list \<Rightarrow> step" where
  "checkRunning h output t k ev =
     (if Contains output ''RUNNING''
      then Done \<lparr>wfs_err = None, wfs_elapsed = t, wfs_events = ev\<rparr>
      else Again (later (t + 50 * Millisecond) (oversleep h k)) k (ev @ [EvSleep]))"

text \<open>One pass through the loop body, entered at time \<open>t\<close> with \<open>k\<close> status queries
  made so far.\<close>

definition waitForStartBody :: "status_host \<Rightarrow> int \<Rightarrow> nat \<Rightarrow> step" where
  "waitForStartBody h t k =
     (case selectWaitLock h t of
        (Returned r, ev) \<Rightarrow> Done \<lparr>wfs_err = r, wfs_elapsed = t, wfs_events = ev\<rparr>
      | (FallThrough, ev) \<Rightarrow>
          (case getInfo h k of
             (d1, output, err) \<Rightarrow>
               if err \<noteq> None then
                 (case getInfo h (k + 1) of
                    (d2, output, err) \<Rightarrow>
                      (case err of
                         Some e \<Rightarrow>
                           Done \<lparr>wfs_err = Some e, wfs_elapsed = later (later t d1) d2,
                                 wfs_events = ev @ [EvGetInfo k, EvGetInfo (k + 1)]\<rparr>
                       | None \<Rightarrow>
                           checkRunning h output (later (later t d1) d2) (k + 2)
                             (ev @ [EvGetInfo k, EvGetInfo (k + 1)])))
               else checkRunning h output (later t d1) (k + 1) (ev @ [EvGetInfo k])))"

definition prepend :: "event list \<Rightarrow> wfs_result \<Rightarrow> wfs_result" where
  "prepend ev r = r\<lparr>wfs_events := ev @ wfs_events r\<rparr>"

lemma waitForStartBody_Again:
  "waitForStartBody h t k = Again t' k' ev \<Longrightarrow> t + 50 * Millisecond \<le> t'"
  by (auto simp: waitForStartBody_def checkRunning_def later_def
           split: prod.splits flow.splits option.splits if_splits)

function waitForStartLoop :: "status_host \<Rightarrow> int \<Rightarrow> nat \<Rightarrow> wfs_result" where
  "waitForStartLoop h t k =
     (if t < 5 * Second then
        (case waitForStartBody h t k of
           Done r \<Rightarrow> r
         | Again t' k' ev \<Rightarrow> prepend ev (waitForStartLoop h t' k'))
      else \<lparr>wfs_err = Some ErrNotRunning, wfs_elapsed = t, wfs_events = []\<rparr>)"
  by pat_completeness auto
termination
proof (relation "measure (\<lambda>(h, t, k). nat (5 * Second - t))")
  show "wf (measure (\<lambda>(h, t, k). nat (5 * Second - t)))"
    by simp
next
  fix h :: status_host and t :: int and k :: nat and t' :: int and k' :: nat
    and ev :: "event list"
  assume "t < 5 * Second" and "waitForStartBody h t k = Again t' k' ev"
  then have "t < t'"
    using waitForStartBody_Again [of h t k t' k' ev] by (simp add: Millisecond_def)
  with \<open>t < 5 * Second\<close>
  show "((h, t', k'), (h, t, k)) \<in> measure (\<lambda>(h, t, k). nat (5 * Second - t))"
    by simp
qed

declare waitForStartLoop.simps [simp del]

definition waitForStart :: "status_host \<Rightarrow> wfs_result" where
  "waitForStart h = waitForStartLoop h 0 0"

text \<open>The times at which the passes of the loop begin: the times at which the loop
  condition is found true, and the \<open>select\<close> runs.\<close>

function passStartsLoop :: "status_host \<Rightarrow> int \<Rightarrow> nat \<Rightarrow> int list" where
  "passStartsLoop h t k =
     (if t < 5 * Second then
        t # (case waitForStartBody h t k of
               Done r \<Rightarrow> []
             | Again t' k' ev \<Rightarrow> passStartsLoop h t' k')
      else [])"
  by pat_completeness auto
termination
proof (relation "measure (\<lambda>(h, t, k). nat (5 * Second - t))")
  show "wf (measure (\<lambda>(h, t, k). nat (5 * Second - t)))"
    by simp
next
  fix h :: status_host and t :: int and k :: nat and t' :: int and k' :: nat
    and ev :: "event list"
  assume "t < 5 * Second" and "waitForStartBody h t k = Again t' k' ev"
  then have "t < t'"
    using waitForStartBody_Again [of h t k t' k' ev] by (simp add: Millisecond_def)
  with \<open>t < 5 * Second\<close>
  show "((h, t', k'), (h, t, k)) \<in> measure (\<lambda>(h, t, k). nat (5 * Second - t))"
    by simp
qed

declare passStartsLoop.simps [simp del]

definition passStarts :: "status_host \<Rightarrow> int list" where
  "passStarts h = passStartsLoop h 0 0"

subsection \<open>Run\<close>

text \<open>
  What \<open>Run\<close> asks of the host: \<open>exec.LookPath\<close>, \<open>SetTerminal\<close>, the two
  steps of \<open>generateLXCConfig\<close> that can fail (\<open>os.Create\<close> and the execution of the
  template), \<open>c.Start()\<close>, and \<open>c.Wait()\<close>: the time at which it returns and how,
  or \<open>None\<close> for a process that never exits. \<open>lxcInfo\<close> and \<open>sleepOver\<close> are
  the status queries and the sleeps of \<open>waitForStart\<close>.
\<close>

record exec_host =
  LookPath :: "string \<Rightarrow> error + string"

record run_host = exec_host +
  SetTerminal :: "error option"
  Create :: "string \<Rightarrow> error option"
  ExecuteTemplate :: "error option"
  Start :: "error option"
  Wait :: "(int \<times> wait_outcome) option"
  lxcInfo :: "nat \<Rightarrow> int \<times> string \<times> error option"
  sleepOver :: "nat \<Rightarrow> int"

definition generateLXCConfig :: "driver \<Rightarrow> Command \<Rightarrow> run_host \<Rightarrow> error + string" where
  "generateLXCConfig d c h =
     (let root' = Join [root d, ''containers'', ID c, ''config.lxc''] in
      case Create h root' of
        Some err \<Rightarrow> Inl err
      | None \<Rightarrow>
          (case ExecuteTemplate h of
             Some err \<Rightarrow> Inl err
           | None \<Rightarrow> Inr root'))"

text \<open>The host as \<open>waitForStart\<close> sees it: \<open>waitLock\<close> is closed when \<open>Wait\<close>
  has returned in the watcher.\<close>

definition statusHost :: "run_host \<Rightarrow> status_host" where
  "statusHost h =
     \<lparr>getInfo = lxcInfo h, oversleep = sleepOver h,
      closedAt = map_option fst (Wait h),
      stateThen = (case Wait h of Some (t, w) \<Rightarrow> fst (cmdWait w) | None \<Rightarrow> None)\<rparr>"

text \<open>
  The result of \<open>Run\<close>: what it returns (or that it blocks for ever on \<open>waitLock\<close>,
  or panics), the \<open>Path\<close> and \<open>Args\<close> with which \<open>c.Start()\<close> was called, the
  number of calls of the start callback, and the watcher's variables once the watcher has
  finished.
\<close>

datatype run_return = Return int "error option" | BlocksForever | Panic

record run_result =
  returned :: run_return
  started :: "(string \<times> string list) option"
  callbackCalls :: nat
  watched :: "watcher option"

definition Run :: "driver \<Rightarrow> Command \<Rightarrow> run_host \<Rightarrow> bool \<Rightarrow> run_result" where
  "Run d c h hasCallback =
     (case SetTerminal h of
        Some err \<Rightarrow>
          \<lparr>returned = Return (- 1) (Some err), started = None, callbackCalls = 0, watched = None\<rparr>
      | None \<Rightarrow>
     (case generateLXCConfig d c h of
        Inl err \<Rightarrow>
          \<lparr>returned = Return (- 1) (Some err), started = None, callbackCalls = 0, watched = None\<rparr>
      | Inr configPath \<Rightarrow>
     (case wrapSharedRoot d (lxcStartParams d c configPath) of
        [] \<Rightarrow> \<lparr>returned = Panic, started = None, callbackCalls = 0, watched = None\<rparr>
      | name # arg \<Rightarrow>
     (let aname = (case LookPath h name of Inl err \<Rightarrow> name | Inr p \<Rightarrow> p);
          c = c\<lparr>Path := aname, Args := [name] @ arg\<rparr>;
          cmd = Some (Path c, Args c)
      in
      case Start h of
        Some err \<Rightarrow>
          \<lparr>returned = Return (- 1) (Some err), started = cmd, callbackCalls = 0, watched = None\<rparr>
      | None \<Rightarrow>
     (let w = map_option
                (\<lambda>(t, out). exitWatcher (snd (cmdWait out)) \<lparr>waitErr = None, waitLockCloses = 0\<rparr>)
                (Wait h)
      in
      case wfs_err (waitForStart (statusHost h)) of
        Some err \<Rightarrow>
          \<lparr>returned = Return (- 1) (Some err), started = cmd, callbackCalls = 0, watched = w\<rparr>
      | None \<Rightarrow>
     (let calls = (if hasCallback then 1 else 0) in
      case Wait h of
        None \<Rightarrow>
          \<lparr>returned = BlocksForever, started = cmd, callbackCalls = calls, watched = None\<rparr>
      | Some (t, out) \<Rightarrow>
          (let c = c\<lparr>ProcessState := fst (cmdWait out)\<rparr>;
               s = exitWatcher (snd (cmdWait out)) \<lparr>waitErr = None, waitLockCloses = 0\<rparr>
           in \<lparr>returned = Return (getExitCode c) (waitErr s), started = cmd,
                callbackCalls = calls, watched = Some s\<rparr>)))))))"

subsection \<open>kill\<close>

text \<open>\<open>CombinedOutput\<close> gives, for a command line, the combined output and the error
  of running it. The result of \<open>kill\<close> is its error and the command line it ran.\<close>

record kill_host = exec_host +
  CombinedOutput :: "string list \<Rightarrow> string \<times> error option"

record kill_result =
  kill_err :: "error option"
  kill_cmd :: "string list"

definition kill :: "kill_host \<Rightarrow> Command \<Rightarrow> int \<Rightarrow> kill_result" where
  "kill h c sig =
     (let cmd = (case LookPath h ''lxc-kill'' of
                   Inr p \<Rightarrow> [''lxc-kill'', ''-n'', ID c, Itoa sig]
                 | Inl err \<Rightarrow> [''lxc-stop'', ''-k'', ''-n'', ID c, Itoa sig])
      in case CombinedOutput h cmd of
           (output, err) \<Rightarrow>
             \<lparr>kill_err = (case err of
                            Some e \<Rightarrow> Some (Errorf ''Err: %s Output: %s'' [ArgError e, ArgBytes output])
                          | None \<Rightarrow> None),
              kill_cmd = cmd\<rparr>)"

definition Kill :: "kill_host \<Rightarrow> Command \<Rightarrow> int \<Rightarrow> kill_result" where
  "Kill h c sig = kill h c sig"

subsection \<open>Example hosts and containers\<close>

text \<open>A host whose memory cgroup is mounted, where every path exists and the tasks file
  has the given content.\<close>

definition tasksHost :: "string \<Rightarrow> cgroup_host" where
  "tasksHost content =
     \<lparr>FindCgroupMountpoint = (\<lambda>s. Inr ''/sys/fs/cgroup/memory''),
      GetThisCgroupDir = (\<lambda>s. Inr ''/docker''),
      Stat = (\<lambda>p. None),
      ReadFile = (\<lambda>p. Inr content)\<rparr>"

text \<open>A container with no network, user, privilege or working directory, and one with
  all of them.\<close>

definition plainCommand :: Command where
  "plainCommand =
     \<lparr>ID = ''c1'', Privileged = False, User = [], InitPath = ''/.dockerinit'',
      Entrypoint = ''/bin/sh'', Arguments = [''-c'', ''exit 3''], WorkingDir = [],
      Network = None, Path = [], Args = [], ProcessState = None\<rparr>"

definition fullCommand :: Command where
  "fullCommand =
     \<lparr>ID = ''c2'', Privileged = True, User = ''bob'', InitPath = ''/.dockerinit'',
      Entrypoint = ''/bin/echo'', Arguments = [''it's'', ''a b''], WorkingDir = ''/tmp'',
      Network = Some \<lparr>Gateway = ''172.17.42.1'', IPAddress = ''172.17.0.2'',
                       IPPrefixLen = 16, Mtu = 1500\<rparr>,
      Path = [], Args = [], ProcessState = None\<rparr>"

definition exampleDriver :: driver where
  "exampleDriver = \<lparr>root = ''/var/lib/docker'', apparmor = True, sharedRoot = False\<rparr>"

definition sharedDriver :: driver where
  "sharedDriver = \<lparr>root = ''/var/lib/docker'', apparmor = True, sharedRoot = True\<rparr>"

text \<open>A host on which the container starts and exits with code 3 (wait status
  \<open>0x300\<close>) at time \<open>tw\<close>, and on which every \<open>lxc-info\<close> takes 20 ms and
  exits with code 1, the container being gone.\<close>

definition exitingHost :: "int \<Rightarrow> run_host" where
  "exitingHost tw =
     \<lparr>LookPath = (\<lambda>name. Inr (''/usr/bin/'' @ name)),
      SetTerminal = None, Create = (\<lambda>p. None), ExecuteTemplate = None, Start = None,
      Wait = Some (tw, Reaped 768 None),
      lxcInfo = (\<lambda>k. (20 * Millisecond, ''c1 doesn't exist'', Some (ExitError 256))),
      sleepOver = (\<lambda>k. 0)\<rparr>"



text \<open>A container that exits at time \<open>f\<close> (with code 3) while every status query
  takes the time \<open>d\<close> and answers \<open>STOPPED\<close>; and a container that never exits
  and is not known to \<open>lxc-info\<close>, which exits with code 1 every time.\<close>

definition stoppedExitingHost :: "int \<Rightarrow> int \<Rightarrow> status_host" where
  "stoppedExitingHost d f =
     \<lparr>getInfo = (\<lambda>k. (d, ''STOPPED'', None)),
      oversleep = (\<lambda>k. 0),
      closedAt = Some f,
      stateThen = Some 768\<rparr>"


text \<open>A host on which the tasks file of the old layout holds the pid 9 and the one under
  \<open>lxc\<close> holds the pid 7, the first of them existing or not.\<close>

definition twoLayoutsHost :: "bool \<Rightarrow> cgroup_host" where
  "twoLayoutsHost oldExists =
     \<lparr>FindCgroupMountpoint = (\<lambda>s. Inr ''/sys/fs/cgroup/memory''),
      GetThisCgroupDir = (\<lambda>s. Inr ''/docker''),
      Stat = (\<lambda>p. if p = ''/sys/fs/cgroup/memory/docker/c1/tasks'' \<and> \<not> oldExists
                    then Some (NotExist p) else None),
      ReadFile = (\<lambda>p. if p = ''/sys/fs/cgroup/memory/docker/lxc/c1/tasks''
                        then Inr ''7\<newline>'' else Inr ''9\<newline>'')\<rparr>"

text \<open>A host with neither \<open>lxc-kill\<close> nor \<open>lxc-stop\<close>, and one with
  \<open>lxc-kill\<close>, which succeeds.\<close>

definition noToolsHost :: kill_host where
  "noToolsHost =
     \<lparr>LookPath = (\<lambda>name. Inl (SysError ''executable file not found in $PATH'')),
      CombinedOutput = (\<lambda>cmd. ([], Some (SysError ''executable file not found in $PATH'')))\<rparr>"

definition lxcKillHost :: kill_host where
  "lxcKillHost =
     \<lparr>LookPath = (\<lambda>name. Inr (''/usr/bin/'' @ name)),
      CombinedOutput = (\<lambda>cmd. ([], None))\<rparr>"

section \<open>Properties\<close>

subsection \<open>Evaluating the library functions\<close>

lemma Itoa_examples: "Itoa 15 = ''15''" "Itoa 16 = ''16''" "Itoa 1500 = ''1500''"
  by code_simp+

lemma Join_examples:
  "Join [''/var/lib/docker'', ''containers'', ''c1'', ''config.lxc''] =
     ''/var/lib/docker/containers/c1/config.lxc''"
  "Join [''/var/lib/docker'', ''containers'', ''c2'', ''config.lxc''] =
     ''/var/lib/docker/containers/c2/config.lxc''"
  "Join [''/var/lib/docker'', ''lxc-start-unconfined''] = ''/var/lib/docker/lxc-start-unconfined''"
  "Join [''/sys/fs/cgroup/memory'', ''/docker'', ''c1'', ''tasks''] =
     ''/sys/fs/cgroup/memory/docker/c1/tasks''"
  "Join [''/sys/fs/cgroup/memory'', ''/docker'', ''lxc'', ''c1'', ''tasks''] =
     ''/sys/fs/cgroup/memory/docker/lxc/c1/tasks''"
  by (simp_all add: Join_def Clean_def cleanStep_def)

lemma Atoi_examples:
  "Atoi ''123'' = Inr 123" "Atoi ''456'' = Inr 456" "Atoi ''abc'' = Inl ErrSyntax"
  by (simp_all add: Atoi_def ParseUint_def isDigit_def maxUint64_def)

lemma Atoi_one_digit: "Atoi ''7'' = Inr 7" "Atoi ''9'' = Inr 9"
  by (simp_all add: Atoi_def ParseUint_def isDigit_def maxUint64_def)

lemma ExitStatus_examples: "ExitStatus 768 = 3" "ExitStatus 9 = - 1" "ExitStatus 0 = 0"
  by (simp_all add: ExitStatus_def Exited_def)

lemma generateLXCConfig_exitingHost:
  "generateLXCConfig exampleDriver plainCommand (exitingHost tw) =
     Inr ''/var/lib/docker/containers/c1/config.lxc''"
  "generateLXCConfig sharedDriver plainCommand (exitingHost tw) =
     Inr ''/var/lib/docker/containers/c1/config.lxc''"
  by (simp_all add: generateLXCConfig_def exampleDriver_def sharedDriver_def plainCommand_def
        exitingHost_def Join_examples)

subsection \<open>The argument vector\<close>

lemma lxcStartParams_shape:
  "lxcStartParams d c configPath =
     [if Privileged c \<and> apparmor d then Join [root d, ''lxc-start-unconfined''] else ''lxc-start'',
      ''-n'', ID c, ''-f'', configPath, ''--'', InitPath c, ''-driver'', ''lxc'']
     @ (case Network c of
          None \<Rightarrow> []
        | Some n \<Rightarrow> [''-g'', Gateway n, ''-i'', IPAddress n @ ''/'' @ Itoa (IPPrefixLen n),
                     ''-mtu'', Itoa (Mtu n)])
     @ (if User c = [] then [] else [''-u'', User c])
     @ (if Privileged c then [''-privileged''] else [])
     @ (if WorkingDir c = [] then [] else [''-w'', WorkingDir c])
     @ [''--'', Entrypoint c] @ Arguments c"
  by (simp add: lxcStartParams_def Let_def DriverName_def split: option.splits)

lemma wrapSharedRoot_not_Nil: "wrapSharedRoot d (lxcStartParams d c configPath) \<noteq> []"
  by (simp add: wrapSharedRoot_def lxcStartParams_shape)

lemma Run_started:
  assumes "SetTerminal h = None" and "generateLXCConfig d c h = Inr configPath"
  shows "map_option snd (started (Run d c h cb)) =
           Some (wrapSharedRoot d (lxcStartParams d c configPath))"
proof (cases "wrapSharedRoot d (lxcStartParams d c configPath)")
  case Nil
  with wrapSharedRoot_not_Nil show ?thesis by blast
next
  case (Cons name arg)
  with assms show ?thesis
    by (simp add: Run_def Let_def split: option.splits prod.splits)
qed

text \<open>
  C1. The vector that \<open>Run\<close> assembles is, in this order: the program name
  (\<open>lxc-start\<close>, or the unconfined variant under the driver root for a privileged
  container with apparmor), \<open>-n\<close> and the ID, \<open>-f\<close> and the configuration path,
  \<open>--\<close>, the init path, \<open>-driver lxc\<close>; then \<open>-g\<close>, \<open>-i\<close> and \<open>-mtu\<close>
  with the gateway, the address slash prefix length and the MTU exactly when there is a
  network; then \<open>-u\<close> and the user exactly when the user is not empty; then
  \<open>-privileged\<close> exactly when the container is privileged; then \<open>-w\<close> and the
  working directory exactly when it is not empty; then \<open>--\<close>, the entrypoint and the
  arguments unchanged. With no network, user, privilege or working directory only the
  fixed tokens remain. When the root is not shared, this vector is the \<open>Args\<close> with
  which \<open>Run\<close> starts the command.
\<close>

theorem lxcStartParams_order:
  "lxcStartParams d c configPath =
     [if Privileged c \<and> apparmor d then Join [root d, ''lxc-start-unconfined''] else ''lxc-start'',
      ''-n'', ID c, ''-f'', configPath, ''--'', InitPath c, ''-driver'', ''lxc'']
     @ (case Network c of
          None \<Rightarrow> []
        | Some n \<Rightarrow> [''-g'', Gateway n, ''-i'', IPAddress n @ ''/'' @ Itoa (IPPrefixLen n),
                     ''-mtu'', Itoa (Mtu n)])
     @ (if User c = [] then [] else [''-u'', User c])
     @ (if Privileged c then [''-privileged''] else [])
     @ (if WorkingDir c = [] then [] else [''-w'', WorkingDir c])
     @ [''--'', Entrypoint c] @ Arguments c \<and>
   (Network c = None \<and> User c = [] \<and> \<not> Privileged c \<and> WorkingDir c = [] \<longrightarrow>
      lxcStartParams d c configPath =
        [''lxc-start'', ''-n'', ID c, ''-f'', configPath, ''--'', InitPath c, ''-driver'', ''lxc'',
         ''--'', Entrypoint c] @ Arguments c) \<and>
   (SetTerminal h = None \<and> generateLXCConfig d c h = Inr configPath \<and> \<not> sharedRoot d \<longrightarrow>
      map_option snd (started (Run d c h cb)) = Some (lxcStartParams d c configPath))"
proof (intro conjI impI)
  show "lxcStartParams d c configPath =
     [if Privileged c \<and> apparmor d then Join [root d, ''lxc-start-unconfined''] else ''lxc-start'',
      ''-n'', ID c, ''-f'', configPath, ''--'', InitPath c, ''-driver'', ''lxc'']
     @ (case Network c of
          None \<Rightarrow> []
        | Some n \<Rightarrow> [''-g'', Gateway n, ''-i'', IPAddress n @ ''/'' @ Itoa (IPPrefixLen n),
                     ''-mtu'', Itoa (Mtu n)])
     @ (if User c = [] then [] else [''-u'', User c])
     @ (if Privileged c then [''-privileged''] else [])
     @ (if WorkingDir c = [] then [] else [''-w'', WorkingDir c])
     @ [''--'', Entrypoint c] @ Arguments c"
    by (rule lxcStartParams_shape)
next
  assume "Network c = None \<and> User c = [] \<and> \<not> Privileged c \<and> WorkingDir c = []"
  then show "lxcStartParams d c configPath =
        [''lxc-start'', ''-n'', ID c, ''-f'', configPath, ''--'', InitPath c, ''-driver'', ''lxc'',
         ''--'', Entrypoint c] @ Arguments c"
    by (simp add: lxcStartParams_shape)
next
  assume "SetTerminal h = None \<and> generateLXCConfig d c h = Inr configPath \<and> \<not> sharedRoot d"
  then show "map_option snd (started (Run d c h cb)) = Some (lxcStartParams d c configPath)"
    using Run_started [of h d c configPath cb] by (simp add: wrapSharedRoot_def)
qed

theorem lxcStartParams_order_witness:
  "Network plainCommand = None \<and> User plainCommand = [] \<and> \<not> Privileged plainCommand \<and>
   WorkingDir plainCommand = [] \<and>
   lxcStartParams exampleDriver plainCommand ''/var/lib/docker/containers/c1/config.lxc'' =
     [''lxc-start'', ''-n'', ''c1'', ''-f'', ''/var/lib/docker/containers/c1/config.lxc'', ''--'',
      ''/.dockerinit'', ''-driver'', ''lxc'', ''--'', ''/bin/sh'', ''-c'', ''exit 3''] \<and>
   SetTerminal (exitingHost 0) = None \<and>
   generateLXCConfig exampleDriver plainCommand (exitingHost 0) =
     Inr ''/var/lib/docker/containers/c1/config.lxc'' \<and>
   \<not> sharedRoot exampleDriver \<and>
   map_option snd (started (Run exampleDriver plainCommand (exitingHost 0) True)) =
     Some [''lxc-start'', ''-n'', ''c1'', ''-f'', ''/var/lib/docker/containers/c1/config.lxc'', ''--'',
           ''/.dockerinit'', ''-driver'', ''lxc'', ''--'', ''/bin/sh'', ''-c'', ''exit 3''] \<and>
   lxcStartParams exampleDriver fullCommand ''/cfg'' =
     [''/var/lib/docker/lxc-start-unconfined'', ''-n'', ''c2'', ''-f'', ''/cfg'', ''--'',
      ''/.dockerinit'', ''-driver'', ''lxc'', ''-g'', ''172.17.42.1'', ''-i'', ''172.17.0.2/16'',
      ''-mtu'', ''1500'', ''-u'', ''bob'', ''-privileged'', ''-w'', ''/tmp'', ''--'', ''/bin/echo'',
      ''it's'', ''a b'']"
proof -
  note cfg = generateLXCConfig_exitingHost(1) [of 0]
  have plain: "Network plainCommand = None \<and> User plainCommand = [] \<and> \<not> Privileged plainCommand \<and>
      WorkingDir plainCommand = []"
    by (simp add: plainCommand_def)
  have host: "SetTerminal (exitingHost 0) = None \<and> \<not> sharedRoot exampleDriver"
    by (simp add: exitingHost_def exampleDriver_def)
  note thm1 = lxcStartParams_order
      [where d = exampleDriver and c = plainCommand and h = "exitingHost 0" and cb = True
         and configPath = "''/var/lib/docker/containers/c1/config.lxc''"]
  note thm2 = lxcStartParams_order
      [where d = exampleDriver and c = fullCommand and configPath = "''/cfg''"]
  from thm1 cfg plain host
  have a: "lxcStartParams exampleDriver plainCommand ''/var/lib/docker/containers/c1/config.lxc'' =
     [''lxc-start'', ''-n'', ''c1'', ''-f'', ''/var/lib/docker/containers/c1/config.lxc'', ''--'',
      ''/.dockerinit'', ''-driver'', ''lxc'', ''--'', ''/bin/sh'', ''-c'', ''exit 3'']"
    by (simp add: plainCommand_def)
  from thm1 cfg plain host
  have b: "map_option snd (started (Run exampleDriver plainCommand (exitingHost 0) True)) =
     Some (lxcStartParams exampleDriver plainCommand ''/var/lib/docker/containers/c1/config.lxc'')"
    by blast
  from thm2 have c: "lxcStartParams exampleDriver fullCommand ''/cfg'' =
     [''/var/lib/docker/lxc-start-unconfined'', ''-n'', ''c2'', ''-f'', ''/cfg'', ''--'',
      ''/.dockerinit'', ''-driver'', ''lxc'', ''-g'', ''172.17.42.1'', ''-i'', ''172.17.0.2/16'',
      ''-mtu'', ''1500'', ''-u'', ''bob'', ''-privileged'', ''-w'', ''/tmp'', ''--'', ''/bin/echo'',
      ''it's'', ''a b'']"
    by (simp add: fullCommand_def exampleDriver_def Itoa_examples Join_examples)
  from a b c cfg plain host show ?thesis by simp
qed

subsection \<open>The unshare wrapper\<close>

lemma emit_emit: "emit a (emit b r) = emit (a @ b) r"
  by (cases r) (simp_all add: emit_def)

lemma emit_Some: "emit a (Some ts) = Some (a @ ts)"
  by (simp add: emit_def)

lemma shLex_wrapper_prefix:
  "shLex Blank (''mount --make-rslave /; exec '' @ rest) =
     emit [Word ''mount'', Word ''--make-rslave'', Word ''/'', Semi, Word ''exec''] (shLex Blank rest)"
  by (simp add: shBlank_def shEnd_def shPlain_def emit_emit)

lemma shellEscape_Nil: "shellEscape [] = []"
  by (simp add: shellEscape_def)

lemma shellEscape_Cons:
  "shellEscape (b # w) =
     (if b = CHR 0x27 then [CHR 0x27, CHR 0x5C, CHR 0x27, CHR 0x27] else [b]) @ shellEscape w"
  by (simp add: shellEscape_def)

text \<open>Inside the quotes the shell reads the escaped bytes back as the bytes escaped: an
  ordinary byte is itself, and the four bytes written for a quote close the quotes, give
  one escaped quote and open the quotes again.\<close>

lemma shLex_escaped_body:
  "shLex (InQuote acc) (shellEscape w @ CHR 0x27 # rest) = shLex (InWord (acc @ w)) rest"
proof (induction w arbitrary: acc)
  case Nil
  show ?case by (simp add: shellEscape_Nil)
next
  case (Cons b w)
  have "shLex (InQuote acc) (shellEscape (b # w) @ CHR 0x27 # rest) =
        shLex (InQuote (acc @ [b])) (shellEscape w @ CHR 0x27 # rest)"
    by (cases "b = CHR 0x27") (simp_all add: shellEscape_Cons shBlank_def shEnd_def)
  then show ?case using Cons.IH [of "acc @ [b]"] by simp
qed

lemma shLex_shellQuote:
  "shLex Blank (shellQuote w @ rest) = shLex (InWord w) rest"
  using shLex_escaped_body [of "[]" w rest]
  by (simp add: shellQuote_def shBlank_def shEnd_def)

lemma shLex_ShellQuoteArguments:
  "shLex Blank (ShellQuoteArguments args) = Some (map Word args)"
proof (induction args rule: induct_list012)
  case 1
  show ?case by (simp add: ShellQuoteArguments_def)
next
  case (2 a)
  show ?case
    using shLex_shellQuote [of a "[]"] by (simp add: ShellQuoteArguments_def)
next
  case (3 a b r)
  have "shLex Blank (ShellQuoteArguments (a # b # r)) =
        shLex (InWord a) (CHR '' '' # ShellQuoteArguments (b # r))"
    using shLex_shellQuote [of a "CHR '' '' # ShellQuoteArguments (b # r)"]
    by (simp add: ShellQuoteArguments_def)
  also have "\<dots> = emit [Word a] (shLex Blank (ShellQuoteArguments (b # r)))"
    by (simp add: shBlank_def)
  finally show ?case using 3 by (simp add: emit_Some)
qed

lemma shGroup_words: "shGroup (map Word ws) cur = [cur @ ws]"
  by (induction ws arbitrary: cur) simp_all

lemma shCommands_wrapper:
  "shCommands (''mount --make-rslave /; exec '' @ ShellQuoteArguments params) =
     Some [[''mount'', ''--make-rslave'', ''/''], ''exec'' # params]"
proof -
  have "shLex Blank (''mount --make-rslave /; exec '' @ ShellQuoteArguments params) =
        Some ([Word ''mount'', Word ''--make-rslave'', Word ''/'', Semi, Word ''exec''] @ map Word params)"
    by (simp only: shLex_wrapper_prefix shLex_ShellQuoteArguments emit_Some)
  then show ?thesis
    using shGroup_words [of params "[''exec'']"] by (simp add: shCommands_def)
qed

text \<open>
  C2. Under a shared root the vector is replaced by \<open>unshare -m -- /bin/sh -c s\<close>,
  where \<open>s\<close> is \<open>mount --make-rslave /; exec\<close>, a space, and the arguments of the
  original vector, each escaped on its own and joined by spaces. Read by the shell,
  \<open>s\<close> is two commands: the \<open>mount\<close>, and \<open>exec\<close> followed by exactly the
  original vector, byte for byte. This wrapper is the \<open>Args\<close> with which \<open>Run\<close>
  starts the command.
\<close>

theorem sharedRoot_wrapper_roundtrip:
  assumes "sharedRoot d"
  shows "wrapSharedRoot d params =
           [''unshare'', ''-m'', ''--'', ''/bin/sh'', ''-c'',
            ''mount --make-rslave /; exec '' @ ShellQuoteArguments params] \<and>
         ShellQuoteArguments params = JoinStrings (map shellQuote params) '' '' \<and>
         shCommands (last (wrapSharedRoot d params)) =
           Some [[''mount'', ''--make-rslave'', ''/''], ''exec'' # params] \<and>
         (SetTerminal h = None \<and> generateLXCConfig d c h = Inr configPath \<longrightarrow>
            map_option snd (started (Run d c h cb)) =
              Some [''unshare'', ''-m'', ''--'', ''/bin/sh'', ''-c'',
                    ''mount --make-rslave /; exec '' @
                    ShellQuoteArguments (lxcStartParams d c configPath)])"
proof -
  have wrap: "\<And>ps. wrapSharedRoot d ps =
      [''unshare'', ''-m'', ''--'', ''/bin/sh'', ''-c'',
       ''mount --make-rslave /; exec '' @ ShellQuoteArguments ps]"
    using assms by (simp add: wrapSharedRoot_def)
  have l: "last (wrapSharedRoot d params) =
      ''mount --make-rslave /; exec '' @ ShellQuoteArguments params"
    by (simp add: wrap)
  have "shCommands (last (wrapSharedRoot d params)) =
      Some [[''mount'', ''--make-rslave'', ''/''], ''exec'' # params]"
    by (simp only: l shCommands_wrapper)
  moreover have "SetTerminal h = None \<and> generateLXCConfig d c h = Inr configPath \<longrightarrow>
      map_option snd (started (Run d c h cb)) =
        Some [''unshare'', ''-m'', ''--'', ''/bin/sh'', ''-c'',
              ''mount --make-rslave /; exec '' @ ShellQuoteArguments (lxcStartParams d c configPath)]"
    using Run_started [of h d c configPath cb] by (simp only: wrap) blast
  ultimately show ?thesis
    using wrap [of params] by (simp only: ShellQuoteArguments_def simp_thms)
qed

theorem sharedRoot_wrapper_roundtrip_witness:
  "sharedRoot sharedDriver \<and>
   wrapSharedRoot sharedDriver [''lxc-start'', ''a b'', ''it's'', [], ''#x;$y''] =
     [''unshare'', ''-m'', ''--'', ''/bin/sh'', ''-c'',
      ''mount --make-rslave /; exec '' @
      [CHR 0x27] @ ''lxc-start'' @ [CHR 0x27] @ '' '' @
      [CHR 0x27] @ ''a b'' @ [CHR 0x27] @ '' '' @
      [CHR 0x27] @ ''it'' @ [CHR 0x27, CHR 0x5C, CHR 0x27, CHR 0x27] @ ''s'' @ [CHR 0x27] @ '' '' @
      [CHR 0x27, CHR 0x27] @ '' '' @
      [CHR 0x27] @ ''#x;$y'' @ [CHR 0x27]] \<and>
   shCommands (last (wrapSharedRoot sharedDriver [''lxc-start'', ''a b'', ''it's'', [], ''#x;$y''])) =
     Some [[''mount'', ''--make-rslave'', ''/''], [''exec'', ''lxc-start'', ''a b'', ''it's'', [], ''#x;$y'']] \<and>
   SetTerminal (exitingHost 0) = None \<and>
   generateLXCConfig sharedDriver plainCommand (exitingHost 0) =
     Inr ''/var/lib/docker/containers/c1/config.lxc'' \<and>
   map_option snd (started (Run sharedDriver plainCommand (exitingHost 0) True)) =
     Some [''unshare'', ''-m'', ''--'', ''/bin/sh'', ''-c'',
           ''mount --make-rslave /; exec '' @
           ShellQuoteArguments
             [''lxc-start'', ''-n'', ''c1'', ''-f'', ''/var/lib/docker/containers/c1/config.lxc'',
              ''--'', ''/.dockerinit'', ''-driver'', ''lxc'', ''--'', ''/bin/sh'', ''-c'', ''exit 3'']]"
proof -
  have sh: "sharedRoot sharedDriver"
    by (simp add: sharedDriver_def)
  have st: "SetTerminal (exitingHost 0) = None"
    by (simp add: exitingHost_def)
  note cfg = generateLXCConfig_exitingHost(2) [of 0]
  have ps: "lxcStartParams sharedDriver plainCommand ''/var/lib/docker/containers/c1/config.lxc'' =
      [''lxc-start'', ''-n'', ''c1'', ''-f'', ''/var/lib/docker/containers/c1/config.lxc'',
       ''--'', ''/.dockerinit'', ''-driver'', ''lxc'', ''--'', ''/bin/sh'', ''-c'', ''exit 3'']"
    by (simp add: lxcStartParams_shape plainCommand_def)
  note thm1 = sharedRoot_wrapper_roundtrip
      [OF sh, where params = "[''lxc-start'', ''a b'', ''it's'', [], ''#x;$y'']"
         and h = "exitingHost 0" and c = plainCommand and cb = True
         and configPath = "''/var/lib/docker/containers/c1/config.lxc''"]
  from thm1 have a: "wrapSharedRoot sharedDriver [''lxc-start'', ''a b'', ''it's'', [], ''#x;$y''] =
     [''unshare'', ''-m'', ''--'', ''/bin/sh'', ''-c'',
      ''mount --make-rslave /; exec '' @
      [CHR 0x27] @ ''lxc-start'' @ [CHR 0x27] @ '' '' @
      [CHR 0x27] @ ''a b'' @ [CHR 0x27] @ '' '' @
      [CHR 0x27] @ ''it'' @ [CHR 0x27, CHR 0x5C, CHR 0x27, CHR 0x27] @ ''s'' @ [CHR 0x27] @ '' '' @
      [CHR 0x27, CHR 0x27] @ '' '' @
      [CHR 0x27] @ ''#x;$y'' @ [CHR 0x27]]"
    by (simp add: shellQuote_def shellEscape_def)
  from thm1 have b: "shCommands (last (wrapSharedRoot sharedDriver [''lxc-start'', ''a b'', ''it's'', [], ''#x;$y''])) =
     Some [[''mount'', ''--make-rslave'', ''/''], [''exec'', ''lxc-start'', ''a b'', ''it's'', [], ''#x;$y'']]"
    by blast
  from thm1 st cfg have c: "map_option snd (started (Run sharedDriver plainCommand (exitingHost 0) True)) =
     Some [''unshare'', ''-m'', ''--'', ''/bin/sh'', ''-c'',
           ''mount --make-rslave /; exec '' @
           ShellQuoteArguments
             (lxcStartParams sharedDriver plainCommand ''/var/lib/docker/containers/c1/config.lxc'')]"
    by blast
  from sh st cfg a b c show ?thesis
    by (simp only: ps simp_thms)
qed

subsection \<open>Start confirmation\<close>

lemma selectWaitLock_cases:
  "selectWaitLock h t =
     (if (\<exists>f. closedAt h = Some f \<and> f \<le> t) then (Returned None, []) else (FallThrough, []))"
  by (auto simp: selectWaitLock_def thenStmt_def returnStmt_def split: option.splits)

lemma prepend_fields:
  "wfs_err (prepend ev r) = wfs_err r" "wfs_elapsed (prepend ev r) = wfs_elapsed r"
  "wfs_events (prepend ev r) = ev @ wfs_events r"
  by (simp_all add: prepend_def)

lemma waitForStartBody_Done_events:
  "waitForStartBody h t k = Done r \<Longrightarrow> EvProcessStateExited \<notin> set (wfs_events r)"
  by (auto simp: waitForStartBody_def selectWaitLock_cases checkRunning_def
           split: prod.splits option.splits if_splits)

lemma waitForStartBody_Again_events:
  "waitForStartBody h t k = Again t' k' ev \<Longrightarrow> EvProcessStateExited \<notin> set ev"
  by (auto simp: waitForStartBody_def selectWaitLock_cases checkRunning_def
           split: prod.splits option.splits if_splits)

lemma waitForStartLoop_never_checks_exited:
  "EvProcessStateExited \<notin> set (wfs_events (waitForStartLoop h t k))"
proof (induction h t k rule: waitForStartLoop.induct)
  case (1 h t k)
  show ?case
  proof (cases "t < 5 * Second")
    case False
    then show ?thesis by (simp add: waitForStartLoop.simps [of h t k])
  next
    case True
    show ?thesis
    proof (cases "waitForStartBody h t k")
      case (Done r)
      with True waitForStartBody_Done_events [OF Done] show ?thesis
        by (simp add: waitForStartLoop.simps [of h t k])
    next
      case (Again t' k' ev)
      with True "1.IH" [OF True Again] waitForStartBody_Again_events [OF Again] show ?thesis
        by (simp add: waitForStartLoop.simps [of h t k] prepend_fields)
    qed
  qed
qed

lemma waitForStartLoop_signalled:
  assumes "t < 5 * Second" and "closedAt h = Some f" and "f \<le> t"
  shows "waitForStartLoop h t k = \<lparr>wfs_err = None, wfs_elapsed = t, wfs_events = []\<rparr>"
  using assms
  by (simp add: waitForStartLoop.simps [of h t k] waitForStartBody_def selectWaitLock_cases)

lemma statusHost_exitingHost:
  "statusHost (exitingHost tw) =
     \<lparr>getInfo = (\<lambda>k. (20 * Millisecond, ''c1 doesn't exist'', Some (ExitError 256))),
      oversleep = (\<lambda>k. 0), closedAt = Some tw, stateThen = Some 768\<rparr>"
  by (simp add: statusHost_def exitingHost_def cmdWait_def)

text \<open>The container exits 10 ms after \<open>waitForStart\<close> is entered, while the first
  \<open>lxc-info\<close> is running; that query and its retry both fail.\<close>

lemma waitForStart_exits_during_query:
  "waitForStart (statusHost (exitingHost (10 * Millisecond))) =
     \<lparr>wfs_err = Some (ExitError 256), wfs_elapsed = 40 * Millisecond,
      wfs_events = [EvGetInfo 0, EvGetInfo 1]\<rparr>"
proof -
  define h where "h = statusHost (exitingHost (10 * Millisecond))"
  have body: "waitForStartBody h 0 0 =
      Done \<lparr>wfs_err = Some (ExitError 256), wfs_elapsed = 40 * Millisecond,
            wfs_events = [EvGetInfo 0, EvGetInfo 1]\<rparr>"
    by (simp add: h_def waitForStartBody_def selectWaitLock_cases statusHost_exitingHost later_def
          Millisecond_def)
  have "waitForStartLoop h 0 0 =
      \<lparr>wfs_err = Some (ExitError 256), wfs_elapsed = 40 * Millisecond,
       wfs_events = [EvGetInfo 0, EvGetInfo 1]\<rparr>"
    by (subst waitForStartLoop.simps) (simp add: body Second_def Millisecond_def)
  then show ?thesis
    by (simp add: waitForStart_def h_def)
qed

text \<open>A signal that has not fired when the \<open>select\<close> runs leaves the pass as it
  would be if the signal never fired; a pass that begins once the signal has fired
  returns \<open>nil\<close>.\<close>

lemma waitForStartBody_signal_unseen:
  assumes "closedAt h = Some f" and "t < f"
  shows "waitForStartBody h t k = waitForStartBody (h\<lparr>closedAt := None\<rparr>) t k"
  using assms
  by (auto simp: waitForStartBody_def selectWaitLock_cases checkRunning_def
           split: prod.splits option.splits)

lemma passStartsLoop_signal_seen:
  assumes "closedAt h = Some f" and "\<exists>u\<in>set (passStartsLoop h t k). f \<le> u"
  shows "wfs_err (waitForStartLoop h t k) = None"
  using assms
proof (induction h t k rule: waitForStartLoop.induct)
  case (1 h t k)
  from "1.prems"(2) have lt: "t < 5 * Second"
    by (cases "t < 5 * Second") (simp_all add: passStartsLoop.simps [of h t k])
  show ?case
  proof (cases "f \<le> t")
    case True
    with lt "1.prems"(1) waitForStartLoop_signalled [of t h f k] show ?thesis by simp
  next
    case False
    with "1.prems"(2) lt obtain t' k' ev where body: "waitForStartBody h t k = Again t' k' ev"
      and rest: "\<exists>u\<in>set (passStartsLoop h t' k'). f \<le> u"
      by (cases "waitForStartBody h t k") (auto simp: passStartsLoop.simps [of h t k])
    from "1.IH" [OF lt body "1.prems"(1) rest] lt body show ?thesis
      by (simp add: waitForStartLoop.simps [of h t k] prepend_fields)
  qed
qed

lemma passStartsLoop_signal_never_seen:
  assumes "closedAt h = Some f" and "\<forall>u\<in>set (passStartsLoop h t k). u < f"
  shows "waitForStartLoop h t k = waitForStartLoop (h\<lparr>closedAt := None\<rparr>) t k"
  using assms
proof (induction h t k rule: waitForStartLoop.induct)
  case (1 h t k)
  let ?h' = "h\<lparr>closedAt := None\<rparr>"
  show ?case
  proof (cases "t < 5 * Second")
    case False
    then show ?thesis
      by (simp add: waitForStartLoop.simps [of h t k] waitForStartLoop.simps [of ?h' t k])
  next
    case True
    with "1.prems"(2) have "t < f"
      by (simp add: passStartsLoop.simps [of h t k])
    from waitForStartBody_signal_unseen [OF "1.prems"(1) this]
    have same: "waitForStartBody ?h' t k = waitForStartBody h t k" by simp
    show ?thesis
    proof (cases "waitForStartBody h t k")
      case (Done r)
      with True same show ?thesis
        by (simp add: waitForStartLoop.simps [of h t k] waitForStartLoop.simps [of ?h' t k])
    next
      case (Again t' k' ev)
      with True "1.prems"(2) have rest: "\<forall>u\<in>set (passStartsLoop h t' k'). u < f"
        by (simp add: passStartsLoop.simps [of h t k])
      from "1.IH" [OF True Again "1.prems"(1) rest] True Again same show ?thesis
        by (simp add: waitForStartLoop.simps [of h t k] waitForStartLoop.simps [of ?h' t k])
    qed
  qed
qed

lemma waitForStartBody_bounded:
  assumes sel: "selectWaitLock h t = (FallThrough, [])"
    and retry: "\<forall>k d out e. getInfo h k = (d, out, Some e) \<longrightarrow>
               (\<exists>d' out'. getInfo h (k + 1) = (d', out', None))"
    and D: "0 \<le> D" "\<forall>k. fst (getInfo h k) \<le> D"
    and S: "0 \<le> S" "\<forall>k. oversleep h k \<le> S"
  shows "(\<exists>r. waitForStartBody h t k = Done r \<and> wfs_err r = None) \<or>
         (\<exists>t' k' ev. waitForStartBody h t k = Again t' k' ev \<and>
            t' \<le> t + 2 * D + 50 * Millisecond + S)"
proof -
  obtain d out e where q: "getInfo h k = (d, out, e)"
    by (cases "getInfo h k") auto
  from D(2) q have d: "d \<le> D" by (metis fst_conv)
  show ?thesis
  proof (cases e)
    case None
    have "later (later t d + 50 * Millisecond) (oversleep h (k + 1)) \<le> t + 2 * D + 50 * Millisecond + S"
      using d D(1) S by (auto simp: later_def max_def dest: spec [of _ "k + 1"])
    with q None sel show ?thesis
      by (simp add: waitForStartBody_def checkRunning_def)
  next
    case (Some e1)
    with q retry obtain d' out' where q': "getInfo h (k + 1) = (d', out', None)" by blast
    from D(2) q' have d': "d' \<le> D" by (metis fst_conv)
    have "later (later (later t d) d' + 50 * Millisecond) (oversleep h (k + 2)) \<le>
          t + 2 * D + 50 * Millisecond + S"
      using d d' D(1) S by (auto simp: later_def max_def dest: spec [of _ "k + 2"])
    with q Some q' sel show ?thesis
      by (simp add: waitForStartBody_def checkRunning_def)
  qed
qed

lemma waitForStartLoop_signal_in_time:
  assumes "closedAt h = Some f"
    and "\<forall>k d out e. getInfo h k = (d, out, Some e) \<longrightarrow>
               (\<exists>d' out'. getInfo h (k + 1) = (d', out', None))"
    and "0 \<le> D" and "\<forall>k. fst (getInfo h k) \<le> D"
    and "0 \<le> S" and "\<forall>k. oversleep h k \<le> S"
    and "f + 2 * D + 50 * Millisecond + S \<le> 5 * Second"
    and "f \<le> t \<longrightarrow> t < 5 * Second"
  shows "wfs_err (waitForStartLoop h t k) = None"
  using assms
proof (induction h t k rule: waitForStartLoop.induct)
  case (1 h t k)
  show ?case
  proof (cases "f \<le> t")
    case True
    with "1.prems"(1,8) waitForStartLoop_signalled [of t h f k] show ?thesis by simp
  next
    case False
    with "1.prems"(3,5,7) have lt: "t < 5 * Second"
      by (simp add: Millisecond_def)
    from False "1.prems"(1) have sel: "selectWaitLock h t = (FallThrough, [])"
      by (simp add: selectWaitLock_cases)
    from waitForStartBody_bounded [OF sel "1.prems"(2-6), of k]
    show ?thesis
    proof (elim disjE exE conjE)
      fix r assume "waitForStartBody h t k = Done r" "wfs_err r = None"
      with lt show ?thesis by (simp add: waitForStartLoop.simps [of h t k])
    next
      fix t' k' ev
      assume body: "waitForStartBody h t k = Again t' k' ev"
        and le: "t' \<le> t + 2 * D + 50 * Millisecond + S"
      from le False "1.prems"(7) have "f \<le> t' \<longrightarrow> t' < 5 * Second" by simp
      from "1.IH" [OF lt body "1.prems"(1-7) this] lt body show ?thesis
        by (simp add: waitForStartLoop.simps [of h t k] prepend_fields)
    qed
  qed
qed

text \<open>Two runs with a status query that always answers \<open>STOPPED\<close>: the container
  exits at 10 ms and the queries take 20 ms; the container exits at 4 s and the queries
  take 3 s. And the run on a host where \<open>lxc-info\<close> always fails.\<close>

lemma stoppedExitingHost_polls:
  assumes "t < 5 * Second" and "t < f" and "0 \<le> d"
  shows "waitForStartLoop (stoppedExitingHost d f) t k =
           prepend [EvGetInfo k, EvSleep]
             (waitForStartLoop (stoppedExitingHost d f) (t + d + 50 * Millisecond) (k + 1))"
    and "passStartsLoop (stoppedExitingHost d f) t k =
           t # passStartsLoop (stoppedExitingHost d f) (t + d + 50 * Millisecond) (k + 1)"
proof -
  have body: "waitForStartBody (stoppedExitingHost d f) t k =
      Again (t + d + 50 * Millisecond) (k + 1) [EvGetInfo k, EvSleep]"
    using assms(2,3)
    by (simp add: waitForStartBody_def selectWaitLock_cases checkRunning_def stoppedExitingHost_def
          later_def HasPrefix_def)
  show "waitForStartLoop (stoppedExitingHost d f) t k =
           prepend [EvGetInfo k, EvSleep]
             (waitForStartLoop (stoppedExitingHost d f) (t + d + 50 * Millisecond) (k + 1))"
    using assms(1) body by (simp add: waitForStartLoop.simps [of _ t k])
  show "passStartsLoop (stoppedExitingHost d f) t k =
           t # passStartsLoop (stoppedExitingHost d f) (t + d + 50 * Millisecond) (k + 1)"
    using assms(1) body by (simp add: passStartsLoop.simps [of _ t k])
qed

lemma stoppedExitingHost_sees_signal:
  assumes "t < 5 * Second" and "f \<le> t"
  shows "waitForStartLoop (stoppedExitingHost d f) t k =
           \<lparr>wfs_err = None, wfs_elapsed = t, wfs_events = []\<rparr>"
    and "passStartsLoop (stoppedExitingHost d f) t k = [t]"
proof -
  have body: "waitForStartBody (stoppedExitingHost d f) t k =
      Done \<lparr>wfs_err = None, wfs_elapsed = t, wfs_events = []\<rparr>"
    using assms(2)
    by (simp add: waitForStartBody_def selectWaitLock_cases stoppedExitingHost_def)
  show "waitForStartLoop (stoppedExitingHost d f) t k =
           \<lparr>wfs_err = None, wfs_elapsed = t, wfs_events = []\<rparr>"
    using assms(1) body by (simp add: waitForStartLoop.simps [of _ t k])
  show "passStartsLoop (stoppedExitingHost d f) t k = [t]"
    using assms(1) body by (simp add: passStartsLoop.simps [of _ t k])
qed

lemma loop_after_bound:
  assumes "5 * Second \<le> t"
  shows "waitForStartLoop h t k =
           \<lparr>wfs_err = Some ErrNotRunning, wfs_elapsed = t, wfs_events = []\<rparr>"
    and "passStartsLoop h t k = []"
  using assms
  by (simp_all add: waitForStartLoop.simps [of h t k] passStartsLoop.simps [of h t k])

lemma quick_exit_run:
  "waitForStart (stoppedExitingHost (20 * Millisecond) (10 * Millisecond)) =
     \<lparr>wfs_err = None, wfs_elapsed = 70 * Millisecond, wfs_events = [EvGetInfo 0, EvSleep]\<rparr>"
  "passStarts (stoppedExitingHost (20 * Millisecond) (10 * Millisecond)) = [0, 70 * Millisecond]"
  using stoppedExitingHost_polls [of 0 "10 * Millisecond" "20 * Millisecond" 0]
    stoppedExitingHost_sees_signal [of "70 * Millisecond" "10 * Millisecond" "20 * Millisecond" 1]
  by (simp_all add: waitForStart_def passStarts_def prepend_def Millisecond_def Second_def)

lemma slow_query_run:
  "waitForStart (stoppedExitingHost (3 * Second) (4 * Second)) =
     \<lparr>wfs_err = Some ErrNotRunning, wfs_elapsed = 6100 * Millisecond,
      wfs_events = [EvGetInfo 0, EvSleep, EvGetInfo 1, EvSleep]\<rparr>"
  "passStarts (stoppedExitingHost (3 * Second) (4 * Second)) = [0, 3050 * Millisecond]"
  using stoppedExitingHost_polls [of 0 "4 * Second" "3 * Second" 0]
    stoppedExitingHost_polls [of "3050 * Millisecond" "4 * Second" "3 * Second" 1]
    loop_after_bound [of "6100 * Millisecond" "stoppedExitingHost (3 * Second) (4 * Second)" "1 + 1"]
  by (simp_all add: waitForStart_def passStarts_def prepend_def Millisecond_def Second_def)


text \<open>
  C3, as stated, does not hold: the completion signal can fire before the five seconds
  are over and \<open>waitForStart\<close> still return an error. In the first run the signal
  fires at 10 ms, after the signal check of the first pass, and the status query of that
  pass fails twice: the result is the query's error. In the second run the signal fires
  at 4 s, after the signal check of the last pass that begins before 5 s (at 3.05 s), and
  the next loop test, at 6.1 s, ends the loop: the result is \<open>ErrNotRunning\<close>.
\<close>

theorem waitForStart_signal_unseen_counterexample:
  "closedAt (statusHost (exitingHost (10 * Millisecond))) = Some (10 * Millisecond) \<and>
   10 * Millisecond < 5 * Second \<and>
   wfs_err (waitForStart (statusHost (exitingHost (10 * Millisecond)))) = Some (ExitError 256) \<and>
   wfs_elapsed (waitForStart (statusHost (exitingHost (10 * Millisecond)))) = 40 * Millisecond \<and>
   closedAt (stoppedExitingHost (3 * Second) (4 * Second)) = Some (4 * Second) \<and>
   4 * Second < 5 * Second \<and>
   waitForStart (stoppedExitingHost (3 * Second) (4 * Second)) =
     \<lparr>wfs_err = Some ErrNotRunning, wfs_elapsed = 6100 * Millisecond,
      wfs_events = [EvGetInfo 0, EvSleep, EvGetInfo 1, EvSleep]\<rparr>"
  by (simp add: waitForStart_exits_during_query slow_query_run(1))
     (simp add: statusHost_exitingHost stoppedExitingHost_def Second_def Millisecond_def)

text \<open>
  C3, amended. At a pass of the loop that begins before five seconds have elapsed, if the
  completion signal has already fired when the signal check runs, \<open>waitForStart\<close>
  returns \<open>nil\<close> at once, with no status query and no sleep, whether or not
  \<open>RUNNING\<close> was ever observed; in particular so when the signal has fired by the time
  \<open>waitForStart\<close> is entered. A signal that has not yet fired at the signal check of
  a pass is not seen in that pass, which runs as if the signal never fired. Hence
  \<open>waitForStart\<close> returns \<open>nil\<close> whenever some pass of its run begins at or after
  the time the signal fires, and when no pass does, it returns what it would return if
  the signal never fired. In particular it returns \<open>nil\<close> when the signal fires at
  \<open>f\<close>, no failed status query is followed by another failed one, every status query
  takes at most \<open>D\<close>, every sleep oversleeps by at most \<open>S\<close>, and
  \<open>f + 2 D + 50 ms + S\<close> is at most five seconds. The \<open>ProcessState.Exited()\<close>
  check after the early return is never executed, on any run.
\<close>

theorem waitForStart_signal_check:
  "(t < 5 * Second \<and> closedAt h = Some f \<and> f \<le> t \<longrightarrow>
      waitForStartLoop h t k = \<lparr>wfs_err = None, wfs_elapsed = t, wfs_events = []\<rparr>) \<and>
   (closedAt h = Some f \<and> f \<le> 0 \<longrightarrow>
      waitForStart h = \<lparr>wfs_err = None, wfs_elapsed = 0, wfs_events = []\<rparr>) \<and>
   (closedAt h = Some f \<and> t < f \<longrightarrow>
      waitForStartBody h t k = waitForStartBody (h\<lparr>closedAt := None\<rparr>) t k) \<and>
   (closedAt h = Some f \<and> (\<exists>u\<in>set (passStarts h). f \<le> u) \<longrightarrow>
      wfs_err (waitForStart h) = None) \<and>
   (closedAt h = Some f \<and> (\<forall>u\<in>set (passStarts h). u < f) \<longrightarrow>
      waitForStart h = waitForStart (h\<lparr>closedAt := None\<rparr>)) \<and>
   (closedAt h = Some f \<and>
    (\<forall>k d out e. getInfo h k = (d, out, Some e) \<longrightarrow>
       (\<exists>d' out'. getInfo h (k + 1) = (d', out', None))) \<and>
    0 \<le> D \<and> (\<forall>k. fst (getInfo h k) \<le> D) \<and> 0 \<le> S \<and> (\<forall>k. oversleep h k \<le> S) \<and>
    f + 2 * D + 50 * Millisecond + S \<le> 5 * Second \<longrightarrow>
      wfs_err (waitForStart h) = None) \<and>
   EvProcessStateExited \<notin> set (wfs_events (waitForStartLoop h t k)) \<and>
   EvProcessStateExited \<notin> set (wfs_events (waitForStart h))"
proof (intro conjI impI)
  assume "t < 5 * Second \<and> closedAt h = Some f \<and> f \<le> t"
  then show "waitForStartLoop h t k = \<lparr>wfs_err = None, wfs_elapsed = t, wfs_events = []\<rparr>"
    using waitForStartLoop_signalled [of t h f k] by simp
next
  assume "closedAt h = Some f \<and> f \<le> 0"
  then show "waitForStart h = \<lparr>wfs_err = None, wfs_elapsed = 0, wfs_events = []\<rparr>"
    using waitForStartLoop_signalled [of 0 h f 0]
    by (simp add: waitForStart_def Second_def Millisecond_def)
next
  assume "closedAt h = Some f \<and> t < f"
  then show "waitForStartBody h t k = waitForStartBody (h\<lparr>closedAt := None\<rparr>) t k"
    using waitForStartBody_signal_unseen [of h f t k] by simp
next
  assume "closedAt h = Some f \<and> (\<exists>u\<in>set (passStarts h). f \<le> u)"
  then show "wfs_err (waitForStart h) = None"
    using passStartsLoop_signal_seen [of h f 0 0] by (simp add: waitForStart_def passStarts_def)
next
  assume "closedAt h = Some f \<and> (\<forall>u\<in>set (passStarts h). u < f)"
  then show "waitForStart h = waitForStart (h\<lparr>closedAt := None\<rparr>)"
    using passStartsLoop_signal_never_seen [of h f 0 0]
    by (simp add: waitForStart_def passStarts_def)
next
  assume a: "closedAt h = Some f \<and>
    (\<forall>k d out e. getInfo h k = (d, out, Some e) \<longrightarrow>
       (\<exists>d' out'. getInfo h (k + 1) = (d', out', None))) \<and>
    0 \<le> D \<and> (\<forall>k. fst (getInfo h k) \<le> D) \<and> 0 \<le> S \<and> (\<forall>k. oversleep h k \<le> S) \<and>
    f + 2 * D + 50 * Millisecond + S \<le> 5 * Second"
  have start: "f \<le> 0 \<longrightarrow> (0::int) < 5 * Second"
    by (simp add: Second_def Millisecond_def)
  from a show "wfs_err (waitForStart h) = None"
    unfolding waitForStart_def
    by (intro waitForStartLoop_signal_in_time [of h f D S 0 0] start) simp_all
next
  show "EvProcessStateExited \<notin> set (wfs_events (waitForStartLoop h t k))"
    by (rule waitForStartLoop_never_checks_exited)
next
  show "EvProcessStateExited \<notin> set (wfs_events (waitForStart h))"
    unfolding waitForStart_def by (rule waitForStartLoop_never_checks_exited)
qed

theorem waitForStart_signal_check_witness:
  "closedAt (stoppedExitingHost (20 * Millisecond) (10 * Millisecond)) = Some (10 * Millisecond) \<and>
   passStarts (stoppedExitingHost (20 * Millisecond) (10 * Millisecond)) = [0, 70 * Millisecond] \<and>
   70 * Millisecond < 5 * Second \<and> 10 * Millisecond \<le> 70 * Millisecond \<and>
   waitForStartLoop (stoppedExitingHost (20 * Millisecond) (10 * Millisecond)) (70 * Millisecond) 1 =
     \<lparr>wfs_err = None, wfs_elapsed = 70 * Millisecond, wfs_events = []\<rparr> \<and>
   waitForStart (stoppedExitingHost (20 * Millisecond) (10 * Millisecond)) =
     \<lparr>wfs_err = None, wfs_elapsed = 70 * Millisecond, wfs_events = [EvGetInfo 0, EvSleep]\<rparr> \<and>
   10 * Millisecond + 2 * (20 * Millisecond) + 50 * Millisecond + 0 \<le> 5 * Second \<and>
   wfs_err (waitForStart (stoppedExitingHost (20 * Millisecond) (10 * Millisecond))) = None \<and>
   waitForStartBody (stoppedExitingHost (20 * Millisecond) (10 * Millisecond)) 0 0 =
     waitForStartBody
       ((stoppedExitingHost (20 * Millisecond) (10 * Millisecond))\<lparr>closedAt := None\<rparr>) 0 0 \<and>
   closedAt (stoppedExitingHost (3 * Second) (4 * Second)) = Some (4 * Second) \<and>
   passStarts (stoppedExitingHost (3 * Second) (4 * Second)) = [0, 3050 * Millisecond] \<and>
   waitForStart (stoppedExitingHost (3 * Second) (4 * Second)) =
     waitForStart ((stoppedExitingHost (3 * Second) (4 * Second))\<lparr>closedAt := None\<rparr>) \<and>
   closedAt (statusHost (exitingHost 0)) = Some 0 \<and>
   waitForStart (statusHost (exitingHost 0)) =
     \<lparr>wfs_err = None, wfs_elapsed = 0, wfs_events = []\<rparr>"
proof -
  let ?q = "stoppedExitingHost (20 * Millisecond) (10 * Millisecond)"
  let ?s = "stoppedExitingHost (3 * Second) (4 * Second)"
  have cq: "closedAt ?q = Some (10 * Millisecond)" and cs: "closedAt ?s = Some (4 * Second)"
    by (simp_all add: stoppedExitingHost_def)
  have ce: "closedAt (statusHost (exitingHost 0)) = Some 0"
    by (simp add: statusHost_exitingHost)
  have nums: "70 * Millisecond < 5 * Second" "10 * Millisecond \<le> 70 * Millisecond"
    "(0::int) < 10 * Millisecond"
    "10 * Millisecond + 2 * (20 * Millisecond) + 50 * Millisecond + 0 \<le> 5 * Second"
    "(0::int) \<le> 20 * Millisecond"
    by (simp_all add: Second_def Millisecond_def)
  have seen: "\<exists>u\<in>set (passStarts ?q). 10 * Millisecond \<le> u"
    using quick_exit_run(2) by (simp add: Millisecond_def)
  have unseen: "\<forall>u\<in>set (passStarts ?s). u < 4 * Second"
    using slow_query_run(2) by (simp add: Millisecond_def Second_def)
  have retry: "\<forall>k d out e. getInfo ?q k = (d, out, Some e) \<longrightarrow>
      (\<exists>d' out'. getInfo ?q (k + 1) = (d', out', None))"
    and short: "\<forall>k. fst (getInfo ?q k) \<le> 20 * Millisecond" "\<forall>k. oversleep ?q k \<le> 0"
    by (simp_all add: stoppedExitingHost_def)
  note q = waitForStart_signal_check
      [where h = ?q and f = "10 * Millisecond" and t = "70 * Millisecond" and k = 1
         and D = "20 * Millisecond" and S = 0]
  note q0 = waitForStart_signal_check [where h = ?q and f = "10 * Millisecond" and t = 0 and k = 0]
  note s = waitForStart_signal_check [where h = ?s and f = "4 * Second"]
  note e = waitForStart_signal_check [where h = "statusHost (exitingHost 0)" and f = 0]
  from q cq nums have a: "waitForStartLoop ?q (70 * Millisecond) 1 =
      \<lparr>wfs_err = None, wfs_elapsed = 70 * Millisecond, wfs_events = []\<rparr>"
    by blast
  from q cq seen have c1: "wfs_err (waitForStart ?q) = None"
    by blast
  from q cq retry short nums have d: "wfs_err (waitForStart ?q) = None"
    by blast
  from q0 cq nums have b: "waitForStartBody ?q 0 0 = waitForStartBody (?q\<lparr>closedAt := None\<rparr>) 0 0"
    by blast
  from s cs unseen have c2: "waitForStart ?s = waitForStart (?s\<lparr>closedAt := None\<rparr>)"
    by blast
  from e ce have a': "waitForStart (statusHost (exitingHost 0)) =
      \<lparr>wfs_err = None, wfs_elapsed = 0, wfs_events = []\<rparr>"
    by simp
  from cq cs ce nums a c1 d b c2 a' quick_exit_run slow_query_run(2) show ?thesis
    by (simp only: simp_thms)
qed










subsection \<open>Process exit and the result of Run\<close>

lemma Run_after_Start:
  assumes "SetTerminal h = None" and "generateLXCConfig d c h = Inr configPath"
    and "Start h = None"
  shows "returned (Run d c h cb) =
           (case wfs_err (waitForStart (statusHost h)) of
              Some err \<Rightarrow> Return (- 1) (Some err)
            | None \<Rightarrow>
                (case Wait h of
                   None \<Rightarrow> BlocksForever
                 | Some (t, out) \<Rightarrow>
                     Return (case fst (cmdWait out) of None \<Rightarrow> - 1 | Some ws \<Rightarrow> ExitStatus ws)
                       (waitErr (exitWatcher (snd (cmdWait out))
                                   \<lparr>waitErr = None, waitLockCloses = 0\<rparr>))))"
    and "watched (Run d c h cb) =
           map_option (\<lambda>(t, out). exitWatcher (snd (cmdWait out)) \<lparr>waitErr = None, waitLockCloses = 0\<rparr>)
             (Wait h)"
proof -
  obtain name arg where "wrapSharedRoot d (lxcStartParams d c configPath) = name # arg"
    using wrapSharedRoot_not_Nil [of d c configPath]
    by (cases "wrapSharedRoot d (lxcStartParams d c configPath)") auto
  with assms show "returned (Run d c h cb) =
           (case wfs_err (waitForStart (statusHost h)) of
              Some err \<Rightarrow> Return (- 1) (Some err)
            | None \<Rightarrow>
                (case Wait h of
                   None \<Rightarrow> BlocksForever
                 | Some (t, out) \<Rightarrow>
                     Return (case fst (cmdWait out) of None \<Rightarrow> - 1 | Some ws \<Rightarrow> ExitStatus ws)
                       (waitErr (exitWatcher (snd (cmdWait out))
                                   \<lparr>waitErr = None, waitLockCloses = 0\<rparr>))))"
    and "watched (Run d c h cb) =
           map_option (\<lambda>(t, out). exitWatcher (snd (cmdWait out)) \<lparr>waitErr = None, waitLockCloses = 0\<rparr>)
             (Wait h)"
    by (simp_all add: Run_def Let_def getExitCode_def split: option.splits prod.splits)
qed

lemma exitingHost_launches:
  "SetTerminal (exitingHost tw) = None" "Start (exitingHost tw) = None"
  "Wait (exitingHost tw) = Some (tw, Reaped 768 None)"
  by (simp_all add: exitingHost_def)

text \<open>
  C6, as stated, does not hold: a launched container can exit with a non-zero status and
  \<open>Run\<close> still return \<open>-1\<close> and an error. Here the container exits with code 3
  while the first status query is running, that query and its retry fail, and \<open>Run\<close>
  returns \<open>-1\<close> with the error of the status query.
\<close>

theorem Run_nonzero_exit_counterexample:
  "SetTerminal (exitingHost (10 * Millisecond)) = None \<and>
   generateLXCConfig exampleDriver plainCommand (exitingHost (10 * Millisecond)) =
     Inr ''/var/lib/docker/containers/c1/config.lxc'' \<and>
   Start (exitingHost (10 * Millisecond)) = None \<and>
   Wait (exitingHost (10 * Millisecond)) = Some (10 * Millisecond, Reaped 768 None) \<and>
   ExitStatus 768 = 3 \<and>
   returned (Run exampleDriver plainCommand (exitingHost (10 * Millisecond)) True) =
     Return (- 1) (Some (ExitError 256))"
  using Run_after_Start(1)
      [OF exitingHost_launches(1) [of "10 * Millisecond"]
          generateLXCConfig_exitingHost(1) [of "10 * Millisecond"]
          exitingHost_launches(2) [of "10 * Millisecond"], where cb = True]
  by (simp add: waitForStart_exits_during_query exitingHost_launches generateLXCConfig_exitingHost
        ExitStatus_examples)

text \<open>
  C6, amended. When the launched container process exits with a non-zero or signaled
  status, \<open>Wait\<close> reports an \<open>ExitError\<close>; the exit watcher does not record it in
  \<open>waitErr\<close> (it records any error that is no \<open>ExitError\<close>) and closes
  \<open>waitLock\<close> exactly once, whatever \<open>Wait\<close> returned; and, provided start
  confirmation has returned \<open>nil\<close>, \<open>Run\<close> returns the exit code taken from the
  wait status together with a \<open>nil\<close> error. When start confirmation returns an error,
  \<open>Run\<close> returns \<open>-1\<close> and that error instead.
\<close>

theorem Run_nonzero_exit_is_no_error:
  assumes "SetTerminal h = None" and "generateLXCConfig d c h = Inr configPath"
    and "Start h = None"
    and "Wait h = Some (tw, Reaped ws copyError)" and "ExitStatus ws \<noteq> 0"
  shows "snd (cmdWait (Reaped ws copyError)) = Some (ExitError ws) \<and>
         exitWatcher (Some (ExitError ws)) \<lparr>waitErr = None, waitLockCloses = 0\<rparr> =
           \<lparr>waitErr = None, waitLockCloses = 1\<rparr> \<and>
         waitLockCloses (exitWatcher waited s) = waitLockCloses s + 1 \<and>
         (\<not> isExitError e \<longrightarrow> waitErr (exitWatcher (Some e) s) = Some e) \<and>
         watched (Run d c h cb) = Some \<lparr>waitErr = None, waitLockCloses = 1\<rparr> \<and>
         (wfs_err (waitForStart (statusHost h)) = None \<longrightarrow>
            returned (Run d c h cb) = Return (ExitStatus ws) None) \<and>
         (wfs_err (waitForStart (statusHost h)) = Some err \<longrightarrow>
            returned (Run d c h cb) = Return (- 1) (Some err))"
proof -
  have w: "snd (cmdWait (Reaped ws copyError)) = Some (ExitError ws)"
    and st: "fst (cmdWait (Reaped ws copyError)) = Some ws"
    using assms(5) by (simp_all add: cmdWait_def)
  have ew: "exitWatcher (Some (ExitError ws)) \<lparr>waitErr = None, waitLockCloses = 0\<rparr> =
           \<lparr>waitErr = None, waitLockCloses = 1\<rparr>"
    by (simp add: exitWatcher_def isExitError_def)
  have once: "waitLockCloses (exitWatcher waited s) = waitLockCloses s + 1"
    by (simp add: exitWatcher_def Let_def split: option.splits)
  have kept: "\<not> isExitError e \<longrightarrow> waitErr (exitWatcher (Some e) s) = Some e"
    by (simp add: exitWatcher_def)
  from Run_after_Start [OF assms(1-3), of cb] assms(4) w st ew once kept show ?thesis
    by simp
qed

theorem Run_nonzero_exit_is_no_error_witness:
  "SetTerminal (exitingHost 0) = None \<and>
   generateLXCConfig exampleDriver plainCommand (exitingHost 0) =
     Inr ''/var/lib/docker/containers/c1/config.lxc'' \<and>
   Start (exitingHost 0) = None \<and>
   Wait (exitingHost 0) = Some (0, Reaped 768 None) \<and>
   ExitStatus 768 = 3 \<and>
   wfs_err (waitForStart (statusHost (exitingHost 0))) = None \<and>
   returned (Run exampleDriver plainCommand (exitingHost 0) True) = Return 3 None \<and>
   watched (Run exampleDriver plainCommand (exitingHost 0) True) =
     Some \<lparr>waitErr = None, waitLockCloses = 1\<rparr>"
proof -
  have nz: "ExitStatus 768 \<noteq> 0"
    by (simp add: ExitStatus_examples)
  have ok: "wfs_err (waitForStart (statusHost (exitingHost 0))) = None"
    using waitForStartLoop_signalled [of 0 "statusHost (exitingHost 0)" 0 0]
    by (simp add: waitForStart_def statusHost_exitingHost Second_def Millisecond_def)
  from Run_nonzero_exit_is_no_error
      [OF exitingHost_launches(1) [of 0] generateLXCConfig_exitingHost(1) [of 0]
          exitingHost_launches(2) [of 0] exitingHost_launches(3) [of 0] nz, where cb = True] ok
  show ?thesis
    by (simp add: exitingHost_launches generateLXCConfig_exitingHost ExitStatus_examples)
qed

subsection \<open>The pids of a container\<close>

lemma parsePids_all_valid:
  "find (\<lambda>l. l \<noteq> [] \<and> isl (Atoi l)) ls = None \<Longrightarrow>
   parsePids ls acc = (acc @ map (\<lambda>l. projr (Atoi l)) (filter (\<lambda>l. l \<noteq> []) ls), None)"
proof (induction ls arbitrary: acc)
  case Nil
  then show ?case by simp
next
  case (Cons l ls)
  show ?case
  proof (cases "l = []")
    case True
    with Cons show ?thesis by simp
  next
    case False
    with Cons.prems obtain n where n: "Atoi l = Inr n"
      by (cases "Atoi l") (auto split: if_splits)
    from Cons.prems False n have "find (\<lambda>l. l \<noteq> [] \<and> isl (Atoi l)) ls = None"
      by (simp split: if_splits)
    from Cons.IH [OF this, of "acc @ [n]"] False n show ?thesis by simp
  qed
qed

lemma parsePids_first_invalid:
  "find (\<lambda>l. l \<noteq> [] \<and> isl (Atoi l)) ls = Some p \<Longrightarrow>
   snd (parsePids ls acc) =
     Some (Errorf ''Invalid pid '%s': %s'' [ArgString p, ArgError (NumError p (projl (Atoi p)))])"
proof (induction ls arbitrary: acc)
  case Nil
  then show ?case by simp
next
  case (Cons l ls)
  show ?case
  proof (cases "l \<noteq> [] \<and> isl (Atoi l)")
    case True
    with Cons.prems have "p = l" by simp
    with True show ?thesis by (cases "Atoi l") auto
  next
    case False
    with Cons.prems have rest: "find (\<lambda>l. l \<noteq> [] \<and> isl (Atoi l)) ls = Some p"
      by (simp split: if_splits)
    show ?thesis
    proof (cases "l = []")
      case True
      with Cons.IH [OF rest] show ?thesis by simp
    next
      case nonempty: False
      with False obtain n where "Atoi l = Inr n" by (cases "Atoi l") auto
      with nonempty Cons.IH [OF rest, of "acc @ [n]"] show ?thesis by simp
    qed
  qed
qed

text \<open>
  C7. When the cgroup lookups succeed and the tasks file can be read,
  \<open>GetPidsForContainer\<close> splits the content at newlines and skips the empty lines. The
  lines \<open>123\<close>, \<open>456\<close> and an empty line give the pids 123 and 456 and no error; the
  lines \<open>123\<close>, \<open>abc\<close> give the error \<open>Invalid pid\<close> with the line \<open>abc\<close>. In
  general, if no non-empty line is rejected by \<open>Atoi\<close> the result is the numbers of
  the non-empty lines in order and no error, and otherwise the error names the first
  non-empty line that \<open>Atoi\<close> rejects.
\<close>

theorem GetPidsForContainer_parses_tasks:
  assumes "FindCgroupMountpoint h ''memory'' = Inr cgroupRoot"
    and "GetThisCgroupDir h ''memory'' = Inr cgroupDir"
    and "ReadFile h (if IsNotExist (Stat h (Join [cgroupRoot, cgroupDir, i, ''tasks'']))
                     then Join [cgroupRoot, cgroupDir, ''lxc'', i, ''tasks'']
                     else Join [cgroupRoot, cgroupDir, i, ''tasks'']) = Inr content"
  shows "(content = ''123\<newline>456\<newline>\<newline>'' \<longrightarrow>
            pids (GetPidsForContainer h i) = [123, 456] \<and>
            pids_err (GetPidsForContainer h i) = None) \<and>
         (content = ''123\<newline>abc\<newline>'' \<longrightarrow>
            pids_err (GetPidsForContainer h i) =
              Some (Errorf ''Invalid pid '%s': %s''
                      [ArgString ''abc'', ArgError (NumError ''abc'' ErrSyntax)])) \<and>
         (case find (\<lambda>l. l \<noteq> [] \<and> isl (Atoi l)) (Split content (CHR 0x0A)) of
            None \<Rightarrow>
              pids_err (GetPidsForContainer h i) = None \<and>
              pids (GetPidsForContainer h i) =
                map (\<lambda>l. projr (Atoi l)) (filter (\<lambda>l. l \<noteq> []) (Split content (CHR 0x0A)))
          | Some p \<Rightarrow>
              pids_err (GetPidsForContainer h i) =
                Some (Errorf ''Invalid pid '%s': %s''
                        [ArgString p, ArgError (NumError p (projl (Atoi p)))]))"
proof -
  let ?lines = "Split content (CHR 0x0A)"
  have res: "GetPidsForContainer h i =
      \<lparr>pids = fst (parsePids ?lines []), pids_err = snd (parsePids ?lines []),
       fs_calls = fs_calls (GetPidsForContainer h i)\<rparr>"
    using assms by (simp add: GetPidsForContainer_def Let_def split: prod.splits)
  have p: "pids (GetPidsForContainer h i) = fst (parsePids ?lines [])"
    and e: "pids_err (GetPidsForContainer h i) = snd (parsePids ?lines [])"
    by (subst res, simp)+
  have ex1: "content = ''123\<newline>456\<newline>\<newline>'' \<Longrightarrow> parsePids ?lines [] = ([123, 456], None)"
    by (simp add: Atoi_examples)
  have ex2: "content = ''123\<newline>abc\<newline>'' \<Longrightarrow> snd (parsePids ?lines []) =
      Some (Errorf ''Invalid pid '%s': %s'' [ArgString ''abc'', ArgError (NumError ''abc'' ErrSyntax)])"
    by (simp add: Atoi_examples)
  have gen: "(case find (\<lambda>l. l \<noteq> [] \<and> isl (Atoi l)) ?lines of
            None \<Rightarrow> snd (parsePids ?lines []) = None \<and>
              fst (parsePids ?lines []) = map (\<lambda>l. projr (Atoi l)) (filter (\<lambda>l. l \<noteq> []) ?lines)
          | Some p \<Rightarrow> snd (parsePids ?lines []) =
                Some (Errorf ''Invalid pid '%s': %s''
                        [ArgString p, ArgError (NumError p (projl (Atoi p)))]))"
    using parsePids_all_valid [of ?lines "[]"] parsePids_first_invalid [of ?lines _ "[]"]
    by (simp split: option.splits)
  from ex1 ex2 gen show ?thesis
    unfolding p e by simp
qed

theorem GetPidsForContainer_parses_tasks_witness:
  "FindCgroupMountpoint (tasksHost ''123\<newline>456\<newline>\<newline>'') ''memory'' = Inr ''/sys/fs/cgroup/memory'' \<and>
   GetThisCgroupDir (tasksHost ''123\<newline>456\<newline>\<newline>'') ''memory'' = Inr ''/docker'' \<and>
   pids (GetPidsForContainer (tasksHost ''123\<newline>456\<newline>\<newline>'') ''c1'') = [123, 456] \<and>
   pids_err (GetPidsForContainer (tasksHost ''123\<newline>456\<newline>\<newline>'') ''c1'') = None \<and>
   pids_err (GetPidsForContainer (tasksHost ''123\<newline>abc\<newline>'') ''c1'') =
     Some (Errorf ''Invalid pid '%s': %s'' [ArgString ''abc'', ArgError (NumError ''abc'' ErrSyntax)])"
  using GetPidsForContainer_parses_tasks
          [of "tasksHost ''123\<newline>456\<newline>\<newline>''" "''/sys/fs/cgroup/memory''" "''/docker''" "''c1''"
              "''123\<newline>456\<newline>\<newline>''"]
        GetPidsForContainer_parses_tasks
          [of "tasksHost ''123\<newline>abc\<newline>''" "''/sys/fs/cgroup/memory''" "''/docker''" "''c1''"
              "''123\<newline>abc\<newline>''"]
  by (simp add: tasksHost_def)

text \<open>
  C8. A failure to find the cgroup mountpoint, or the current cgroup directory, is
  returned as the error, with an empty pid list and without touching the file system.
  Otherwise \<open>GetPidsForContainer\<close> stats the tasks file under mountpoint, cgroup
  directory and ID. When the stat says that this path does not exist, the file it reads
  is the tasks file under the \<open>lxc\<close> subdirectory: the result is the read error of
  that file, or the pids parsed from the content of that file. In every other case the
  file it reads is the first one, in the same way.
\<close>

theorem GetPidsForContainer_tasks_path:
  "(FindCgroupMountpoint h ''memory'' = Inl err \<longrightarrow>
      GetPidsForContainer h i = \<lparr>pids = [], pids_err = Some err, fs_calls = []\<rparr>) \<and>
   (FindCgroupMountpoint h ''memory'' = Inr cgroupRoot \<and>
    GetThisCgroupDir h ''memory'' = Inl err \<longrightarrow>
      GetPidsForContainer h i = \<lparr>pids = [], pids_err = Some err, fs_calls = []\<rparr>) \<and>
   (FindCgroupMountpoint h ''memory'' = Inr cgroupRoot \<and>
    GetThisCgroupDir h ''memory'' = Inr cgroupDir \<longrightarrow>
      (Stat h (Join [cgroupRoot, cgroupDir, i, ''tasks'']) = Some (NotExist p) \<longrightarrow>
         fs_calls (GetPidsForContainer h i) =
           [CallStat (Join [cgroupRoot, cgroupDir, i, ''tasks'']),
            CallReadFile (Join [cgroupRoot, cgroupDir, ''lxc'', i, ''tasks''])] \<and>
         (ReadFile h (Join [cgroupRoot, cgroupDir, ''lxc'', i, ''tasks'']) = Inl rerr \<longrightarrow>
            pids (GetPidsForContainer h i) = [] \<and>
            pids_err (GetPidsForContainer h i) = Some rerr) \<and>
         (ReadFile h (Join [cgroupRoot, cgroupDir, ''lxc'', i, ''tasks'']) = Inr content \<longrightarrow>
            (pids (GetPidsForContainer h i), pids_err (GetPidsForContainer h i)) =
              parsePids (Split content (CHR 0x0A)) [])) \<and>
      (\<not> IsNotExist (Stat h (Join [cgroupRoot, cgroupDir, i, ''tasks''])) \<longrightarrow>
         fs_calls (GetPidsForContainer h i) =
           [CallStat (Join [cgroupRoot, cgroupDir, i, ''tasks'']),
            CallReadFile (Join [cgroupRoot, cgroupDir, i, ''tasks''])] \<and>
         (ReadFile h (Join [cgroupRoot, cgroupDir, i, ''tasks'']) = Inl rerr \<longrightarrow>
            pids (GetPidsForContainer h i) = [] \<and>
            pids_err (GetPidsForContainer h i) = Some rerr) \<and>
         (ReadFile h (Join [cgroupRoot, cgroupDir, i, ''tasks'']) = Inr content \<longrightarrow>
            (pids (GetPidsForContainer h i), pids_err (GetPidsForContainer h i)) =
              parsePids (Split content (CHR 0x0A)) [])))"
  by (auto simp: GetPidsForContainer_def Let_def IsNotExist_def split: sum.splits prod.splits)

theorem GetPidsForContainer_tasks_path_witness:
  "GetPidsForContainer
     ((tasksHost ''1'')\<lparr>FindCgroupMountpoint := (\<lambda>s. Inl (SysError ''mountpoint not found''))\<rparr>) ''c1'' =
     \<lparr>pids = [], pids_err = Some (SysError ''mountpoint not found''), fs_calls = []\<rparr> \<and>
   GetPidsForContainer
     ((tasksHost ''1'')\<lparr>GetThisCgroupDir := (\<lambda>s. Inl (SysError ''cgroup not found''))\<rparr>) ''c1'' =
     \<lparr>pids = [], pids_err = Some (SysError ''cgroup not found''), fs_calls = []\<rparr> \<and>
   Stat (twoLayoutsHost False) ''/sys/fs/cgroup/memory/docker/c1/tasks'' =
     Some (NotExist ''/sys/fs/cgroup/memory/docker/c1/tasks'') \<and>
   ReadFile (twoLayoutsHost False) ''/sys/fs/cgroup/memory/docker/c1/tasks'' = Inr ''9\<newline>'' \<and>
   ReadFile (twoLayoutsHost False) ''/sys/fs/cgroup/memory/docker/lxc/c1/tasks'' = Inr ''7\<newline>'' \<and>
   GetPidsForContainer (twoLayoutsHost False) ''c1'' =
     \<lparr>pids = [7], pids_err = None,
      fs_calls = [CallStat ''/sys/fs/cgroup/memory/docker/c1/tasks'',
                  CallReadFile ''/sys/fs/cgroup/memory/docker/lxc/c1/tasks'']\<rparr> \<and>
   \<not> IsNotExist (Stat (twoLayoutsHost True) ''/sys/fs/cgroup/memory/docker/c1/tasks'') \<and>
   GetPidsForContainer (twoLayoutsHost True) ''c1'' =
     \<lparr>pids = [9], pids_err = None,
      fs_calls = [CallStat ''/sys/fs/cgroup/memory/docker/c1/tasks'',
                  CallReadFile ''/sys/fs/cgroup/memory/docker/c1/tasks'']\<rparr>"
proof -
  note t1 = GetPidsForContainer_tasks_path
      [where h = "(tasksHost ''1'')\<lparr>FindCgroupMountpoint := (\<lambda>s. Inl (SysError ''mountpoint not found''))\<rparr>"
         and err = "SysError ''mountpoint not found''" and i = "''c1''"]
  note t2 = GetPidsForContainer_tasks_path
      [where h = "(tasksHost ''1'')\<lparr>GetThisCgroupDir := (\<lambda>s. Inl (SysError ''cgroup not found''))\<rparr>"
         and err = "SysError ''cgroup not found''" and i = "''c1''"
         and cgroupRoot = "''/sys/fs/cgroup/memory''"]
  note t3 = GetPidsForContainer_tasks_path
      [where h = "twoLayoutsHost False" and i = "''c1''" and cgroupRoot = "''/sys/fs/cgroup/memory''"
         and cgroupDir = "''/docker''" and p = "''/sys/fs/cgroup/memory/docker/c1/tasks''"
         and content = "''7\<newline>''"]
  note t4 = GetPidsForContainer_tasks_path
      [where h = "twoLayoutsHost True" and i = "''c1''" and cgroupRoot = "''/sys/fs/cgroup/memory''"
         and cgroupDir = "''/docker''" and content = "''9\<newline>''"]
  have a: "GetPidsForContainer
     ((tasksHost ''1'')\<lparr>FindCgroupMountpoint := (\<lambda>s. Inl (SysError ''mountpoint not found''))\<rparr>) ''c1'' =
     \<lparr>pids = [], pids_err = Some (SysError ''mountpoint not found''), fs_calls = []\<rparr>"
    using t1 by (simp add: tasksHost_def)
  have b: "GetPidsForContainer
     ((tasksHost ''1'')\<lparr>GetThisCgroupDir := (\<lambda>s. Inl (SysError ''cgroup not found''))\<rparr>) ''c1'' =
     \<lparr>pids = [], pids_err = Some (SysError ''cgroup not found''), fs_calls = []\<rparr>"
    using t2 by (simp add: tasksHost_def)
  have c: "pids (GetPidsForContainer (twoLayoutsHost False) ''c1'') = [7] \<and>
      pids_err (GetPidsForContainer (twoLayoutsHost False) ''c1'') = None \<and>
      fs_calls (GetPidsForContainer (twoLayoutsHost False) ''c1'') =
        [CallStat ''/sys/fs/cgroup/memory/docker/c1/tasks'',
         CallReadFile ''/sys/fs/cgroup/memory/docker/lxc/c1/tasks'']"
    using t3 by (simp add: twoLayoutsHost_def Join_examples Atoi_one_digit)
  have d: "pids (GetPidsForContainer (twoLayoutsHost True) ''c1'') = [9] \<and>
      pids_err (GetPidsForContainer (twoLayoutsHost True) ''c1'') = None \<and>
      fs_calls (GetPidsForContainer (twoLayoutsHost True) ''c1'') =
        [CallStat ''/sys/fs/cgroup/memory/docker/c1/tasks'',
         CallReadFile ''/sys/fs/cgroup/memory/docker/c1/tasks'']"
    using t4 by (simp add: twoLayoutsHost_def Join_examples Atoi_one_digit IsNotExist_def)
  have rec: "r = \<lparr>pids = pids r, pids_err = pids_err r, fs_calls = fs_calls r\<rparr>" for r :: pids_result
    by simp
  have c': "GetPidsForContainer (twoLayoutsHost False) ''c1'' =
     \<lparr>pids = [7], pids_err = None,
      fs_calls = [CallStat ''/sys/fs/cgroup/memory/docker/c1/tasks'',
                  CallReadFile ''/sys/fs/cgroup/memory/docker/lxc/c1/tasks'']\<rparr>"
    using c by (subst rec) simp
  have d': "GetPidsForContainer (twoLayoutsHost True) ''c1'' =
     \<lparr>pids = [9], pids_err = None,
      fs_calls = [CallStat ''/sys/fs/cgroup/memory/docker/c1/tasks'',
                  CallReadFile ''/sys/fs/cgroup/memory/docker/c1/tasks'']\<rparr>"
    using d by (subst rec) simp
  have hosts: "Stat (twoLayoutsHost False) ''/sys/fs/cgroup/memory/docker/c1/tasks'' =
     Some (NotExist ''/sys/fs/cgroup/memory/docker/c1/tasks'')"
    "ReadFile (twoLayoutsHost False) ''/sys/fs/cgroup/memory/docker/c1/tasks'' = Inr ''9\<newline>''"
    "ReadFile (twoLayoutsHost False) ''/sys/fs/cgroup/memory/docker/lxc/c1/tasks'' = Inr ''7\<newline>''"
    "\<not> IsNotExist (Stat (twoLayoutsHost True) ''/sys/fs/cgroup/memory/docker/c1/tasks'')"
    by (simp_all add: twoLayoutsHost_def IsNotExist_def)
  from a b c' d' hosts show ?thesis
    by (simp only: simp_thms)
qed

subsection \<open>Signals\<close>

text \<open>
  C9, as stated, does not hold: \<open>Kill\<close> also returns an error when the chosen tool
  does not exit with a non-zero status because it cannot be run at all. Here neither
  tool is installed; the fallback is chosen, running it fails with an error that is no
  \<open>ExitError\<close>, and \<open>Kill\<close> returns an error, not \<open>nil\<close>.
\<close>

theorem Kill_absent_tool_counterexample:
  "kill_cmd (Kill noToolsHost plainCommand 15) = [''lxc-stop'', ''-k'', ''-n'', ''c1'', ''15''] \<and>
   CombinedOutput noToolsHost [''lxc-stop'', ''-k'', ''-n'', ''c1'', ''15''] =
     ([], Some (SysError ''executable file not found in $PATH'')) \<and>
   \<not> isExitError (SysError ''executable file not found in $PATH'') \<and>
   kill_err (Kill noToolsHost plainCommand 15) =
     Some (Errorf ''Err: %s Output: %s''
             [ArgError (SysError ''executable file not found in $PATH''), ArgBytes []])"
  by (simp add: Kill_def kill_def noToolsHost_def plainCommand_def Itoa_examples isExitError_def)

text \<open>
  C9, amended. \<open>Kill\<close> runs \<open>lxc-kill -n ID signal\<close> exactly when \<open>lxc-kill\<close> is
  found on the host, and \<open>lxc-stop -k -n ID signal\<close> otherwise. If running the chosen
  command gives any error (a non-zero exit, or a tool that cannot be run), \<open>Kill\<close>
  returns an error made of that error and the combined output of the command; it returns
  \<open>nil\<close> exactly when running the command gives no error.
\<close>

theorem Kill_command_and_error:
  "(LookPath h ''lxc-kill'' = Inr p \<longrightarrow>
      kill_cmd (Kill h c sig) = [''lxc-kill'', ''-n'', ID c, Itoa sig]) \<and>
   (LookPath h ''lxc-kill'' = Inl e \<longrightarrow>
      kill_cmd (Kill h c sig) = [''lxc-stop'', ''-k'', ''-n'', ID c, Itoa sig]) \<and>
   (CombinedOutput h (kill_cmd (Kill h c sig)) = (out, Some err) \<longrightarrow>
      kill_err (Kill h c sig) =
        Some (Errorf ''Err: %s Output: %s'' [ArgError err, ArgBytes out])) \<and>
   (CombinedOutput h (kill_cmd (Kill h c sig)) = (out, None) \<longrightarrow>
      kill_err (Kill h c sig) = None)"
  by (auto simp: Kill_def kill_def Let_def split: sum.splits prod.splits)

theorem Kill_command_and_error_witness:
  "kill_cmd (Kill noToolsHost plainCommand 15) = [''lxc-stop'', ''-k'', ''-n'', ''c1'', ''15''] \<and>
   kill_err (Kill noToolsHost plainCommand 15) =
     Some (Errorf ''Err: %s Output: %s''
             [ArgError (SysError ''executable file not found in $PATH''), ArgBytes []]) \<and>
   LookPath lxcKillHost ''lxc-kill'' = Inr ''/usr/bin/lxc-kill'' \<and>
   kill_cmd (Kill lxcKillHost plainCommand 15) = [''lxc-kill'', ''-n'', ''c1'', ''15''] \<and>
   kill_err (Kill lxcKillHost plainCommand 15) = None"
  using Kill_command_and_error
          [where h = noToolsHost and e = "SysError ''executable file not found in $PATH''"
             and c = plainCommand and sig = 15 and out = "[]"
             and err = "SysError ''executable file not found in $PATH''"]
        Kill_command_and_error
          [where h = lxcKillHost and p = "''/usr/bin/lxc-kill''" and c = plainCommand and sig = 15
             and out = "[]"]
  by (simp add: noToolsHost_def lxcKillHost_def plainCommand_def Itoa_examples)

subsection \<open>The mount table\<close>

text \<open>
  C10. \<open>rootIsShared\<close> is not total on every content of the mount table: a line of
  exactly six space-separated fields whose fifth field is \<open>/\<close> passes the length test
  \<open>len(cols) >= 6\<close>, and reading \<open>cols[6]\<close> then panics.
\<close>

theorem rootIsShared_six_fields_panics:
  "rootIsShared (Inr ''1 0 8:1 / / rw'') = PanicIndexOutOfRange \<and>
   length (Split ''1 0 8:1 / / rw'' (CHR '' '')) = 6"
  by (simp add: rootIsShared_def index_def)

end
